theory Spec2Isabelle
  imports Main "HOL-Library.Word"
begin

section \<open>Numbers\<close>

text \<open>
  A JavaScript number is an IEEE 754 double: \<open>NaN\<close>, an infinity, a zero, or a finite
  value. The flag is the sign, \<open>True\<close> for negative. \<open>Finite s m e\<close> stands for
  \<open>m * 2 ^ e\<close> with that sign, where \<open>m\<close> is odd and below \<open>2 ^ 53\<close>, \<open>e\<close> is at
  least \<open>-1074\<close>, and the value is below \<open>2 ^ 1024\<close>: every finite double other than
  zero is written so in exactly one way.
\<close>

datatype double = NaN | Infinity bool | Zero bool | Finite bool nat int

text \<open>The number of binary digits of a natural number, and the odd mantissa of a
  value \<open>m * 2 ^ e\<close>.\<close>

fun bit_length :: "nat \<Rightarrow> nat" where
  "bit_length n = (if n = 0 then 0 else Suc (bit_length (n div 2)))"

fun normalise :: "nat \<Rightarrow> int \<Rightarrow> nat \<times> int" where
  "normalise m e = (if m = 0 \<or> odd m then (m, e) else normalise (m div 2) (e + 1))"

text \<open>
  Rounding the exact value \<open>M * 2 ^ E\<close>, \<open>M\<close> positive, to the nearest double, ties
  to the even mantissa: the digits beyond the 53rd are cut off and the rest goes up
  when the cut part is more than half a unit, or exactly half with an odd rest. A
  result of \<open>2 ^ 1024\<close> or more is an infinity. The sum of two doubles is a multiple
  of \<open>2 ^ -1074\<close>, so no digit is lost at the small end.
\<close>

definition round_to_double :: "bool \<Rightarrow> nat \<Rightarrow> int \<Rightarrow> double" where
  "round_to_double negative M E =
     (let k = bit_length M - 53;
          q = M div 2 ^ k;
          r = M mod 2 ^ k;
          q' = (if 2 * r > 2 ^ k \<or> (2 * r = 2 ^ k \<and> odd q) then q + 1 else q)
      in case normalise q' (E + int k) of
           (m, e) \<Rightarrow> if int (bit_length m) + e > 1024 then Infinity negative
                     else Finite negative m e)"

definition signed_int :: "bool \<Rightarrow> nat \<Rightarrow> int" where
  "signed_int negative m = (if negative then - int m else int m)"

text \<open>
  Addition of doubles, rounding to nearest: \<open>NaN\<close> absorbs; opposite infinities give
  \<open>NaN\<close>; two zeros give the negative zero only when both are negative; a zero leaves
  the other operand as it is; two finite values are added exactly, an exact sum of zero
  is the positive zero, any other sum is rounded.
\<close>

fun dadd :: "double \<Rightarrow> double \<Rightarrow> double" where
  "dadd NaN y = NaN"
| "dadd x NaN = NaN"
| "dadd (Infinity s) (Infinity t) = (if s = t then Infinity s else NaN)"
| "dadd (Infinity s) y = Infinity s"
| "dadd x (Infinity t) = Infinity t"
| "dadd (Zero s) (Zero t) = Zero (s \<and> t)"
| "dadd (Zero s) y = y"
| "dadd x (Zero t) = x"
| "dadd (Finite s1 m1 e1) (Finite s2 m2 e2) =
     (let E = min e1 e2;
          M = signed_int s1 m1 * 2 ^ nat (e1 - E) + signed_int s2 m2 * 2 ^ nat (e2 - E)
      in if M = 0 then Zero False else round_to_double (M < 0) (nat \<bar>M\<bar>) E)"

declare bit_length.simps [simp del]

declare normalise.simps [simp del]

text \<open>The double of an integer below \<open>2 ^ 53\<close> in absolute value.\<close>

definition double_of_int :: "int \<Rightarrow> double" where
  "double_of_int i =
     (if i = 0 then Zero False
      else case normalise (nat \<bar>i\<bar>) 0 of (m, e) \<Rightarrow> Finite (i < 0) m e)"

section \<open>JavaScript values\<close>

text \<open>
  The program is TypeScript whose HTTP responses are typed \<open>any\<close>, so the values it
  handles are plain JavaScript values as \<open>JSON.parse\<close> produces them, plus
  \<open>undefined\<close>. Strings are byte strings (UTF-8). An object is the list of its own
  properties.
\<close>

type_synonym byte = "8 word"

datatype jsval =
    JUndefined
  | JNull
  | JBool bool
  | JNum double
  | JStr string
  | JArr "jsval list"
  | JObj "(string \<times> jsval) list"

text \<open>Exceptions: \<open>new Error(message)\<close>, a \<open>TypeError\<close> of the runtime (its
  message depends on the engine and is left out), and a failure reported by a
  collaborator (file system, network) with its code.\<close>

datatype error = Error string | TypeError | SystemError string

text \<open>
  Built-ins of the runtime whose implementation is not part of the repository and that
  the model does not fix: the SHA-256 digest, the printing of a number,
  \<open>JSON.stringify(v, null, 2)\<close> (a string, or \<open>undefined\<close>), the URL parser's
  check of authority and path, and the decoding of bytes as UTF-8.
\<close>

record platform =
  sha256 :: "byte list \<Rightarrow> byte list"
  number_to_string :: "double \<Rightarrow> string"
  JSON_stringify :: "jsval \<Rightarrow> string option"
  URL_body_valid :: "string \<Rightarrow> string \<Rightarrow> bool"
  utf8_decode :: "byte list \<Rightarrow> string"

text \<open>Reading a property \<open>v.name\<close>, for a name that no built-in prototype defines:
  \<open>undefined\<close> and \<open>null\<close> throw, an object gives its own property or
  \<open>undefined\<close>, every other value gives \<open>undefined\<close>.\<close>

fun js_get :: "jsval \<Rightarrow> string \<Rightarrow> error + jsval" where
  "js_get JUndefined name = Inl TypeError"
| "js_get JNull name = Inl TypeError"
| "js_get (JObj props) name = Inr (case map_of props name of Some v \<Rightarrow> v | None \<Rightarrow> JUndefined)"
| "js_get v name = Inr JUndefined"

text \<open>Joining the results of a fallible conversion, stopping at the first error.\<close>

fun join_results :: "(error + string) list \<Rightarrow> error + string" where
  "join_results [] = Inr []"
| "join_results [r] = r"
| "join_results (r # rs) =
     (case r of
        Inl e \<Rightarrow> Inl e
      | Inr s \<Rightarrow> (case join_results rs of Inl e \<Rightarrow> Inl e | Inr t \<Rightarrow> Inr (s @ '','' @ t)))"

text \<open>\<open>ToString\<close>, as a template literal applies it. An array joins its elements with
  commas, \<open>undefined\<close> and \<open>null\<close> elements giving the empty string. An object has no
  callable \<open>toString\<close> of its own, so it prints through \<open>Object.prototype\<close> unless an
  own property shadows that method, in which case the conversion throws.\<close>

fun to_string :: "platform \<Rightarrow> jsval \<Rightarrow> error + string" where
  "to_string P JUndefined = Inr ''undefined''"
| "to_string P JNull = Inr ''null''"
| "to_string P (JBool b) = Inr (if b then ''true'' else ''false'')"
| "to_string P (JNum d) = Inr (number_to_string P d)"
| "to_string P (JStr s) = Inr s"
| "to_string P (JArr vs) =
     join_results (map (\<lambda>v. if v = JUndefined \<or> v = JNull then Inr [] else to_string P v) vs)"
| "to_string P (JObj props) =
     (if map_of props ''toString'' = None then Inr ''[object Object]''
      else Inl TypeError)"

text \<open>\<open>ToNumber\<close> on the values that are not strings, arrays or objects.\<close>

fun to_number :: "jsval \<Rightarrow> double" where
  "to_number JNull = Zero False"
| "to_number (JBool b) = (if b then Finite False 1 0 else Zero False)"
| "to_number (JNum d) = d"
| "to_number v = NaN"

definition is_stringish :: "jsval \<Rightarrow> bool" where
  "is_stringish v = (case v of JStr _ \<Rightarrow> True | JArr _ \<Rightarrow> True | JObj _ \<Rightarrow> True | _ \<Rightarrow> False)"

text \<open>The operator \<open>a + b\<close>: when either operand is a string, or an array or object
  (whose primitive is a string), the result is the concatenation of the two strings;
  otherwise both operands are converted to numbers and added.\<close>

definition js_add :: "platform \<Rightarrow> jsval \<Rightarrow> jsval \<Rightarrow> error + jsval" where
  "js_add P a b =
     (if is_stringish a \<or> is_stringish b then
        (case to_string P a of
           Inl e \<Rightarrow> Inl e
         | Inr s \<Rightarrow> (case to_string P b of Inl e \<Rightarrow> Inl e | Inr t \<Rightarrow> Inr (JStr (s @ t))))
      else Inr (JNum (dadd (to_number a) (to_number b))))"

text \<open>Decimal printing of an integer, as a template literal prints an HTTP status.\<close>

fun decimal_nat :: "nat \<Rightarrow> string" where
  "decimal_nat n =
     (if n < 10 then [''0123456789'' ! n]
      else decimal_nat (n div 10) @ [''0123456789'' ! (n mod 10)])"

definition decimal :: "int \<Rightarrow> string" where
  "decimal i = (if i < 0 then CHR ''-'' # decimal_nat (nat (- i)) else decimal_nat (nat i))"

section \<open>PKCE parameters\<close>

text \<open>\<open>Buffer.toString('base64')\<close> is the standard alphabet with \<open>=\<close> padding,
  \<open>Buffer.toString('base64url')\<close> the URL-safe alphabet without padding.\<close>

definition base64_alphabet :: string where
  "base64_alphabet = ''ABCDEFGHIJKLMNOPQRSTUVWXYZabcdefghijklmnopqrstuvwxyz0123456789+/''"

definition base64url_alphabet :: string where
  "base64url_alphabet = ''ABCDEFGHIJKLMNOPQRSTUVWXYZabcdefghijklmnopqrstuvwxyz0123456789-_''"

fun base64_encode :: "string \<Rightarrow> bool \<Rightarrow> byte list \<Rightarrow> string" where
  "base64_encode tbl pad (a # b # c # rest) =
     (let n = unat a * 65536 + unat b * 256 + unat c
      in [tbl ! (n div 262144 mod 64), tbl ! (n div 4096 mod 64),
          tbl ! (n div 64 mod 64), tbl ! (n mod 64)] @ base64_encode tbl pad rest)"
| "base64_encode tbl pad [a, b] =
     (let n = unat a * 1024 + unat b * 4
      in [tbl ! (n div 4096 mod 64), tbl ! (n div 64 mod 64), tbl ! (n mod 64)]
         @ (if pad then ''='' else []))"
| "base64_encode tbl pad [a] =
     (let n = unat a * 16
      in [tbl ! (n div 64 mod 64), tbl ! (n mod 64)] @ (if pad then ''=='' else []))"
| "base64_encode tbl pad [] = []"

definition Buffer_toString_base64 :: "byte list \<Rightarrow> string" where
  "Buffer_toString_base64 bs = base64_encode base64_alphabet True bs"

definition Buffer_toString_base64url :: "byte list \<Rightarrow> string" where
  "Buffer_toString_base64url bs = base64_encode base64url_alphabet False bs"

text \<open>\<open>s.replace(/c/g, r)\<close> for a one-character pattern.\<close>

definition replace_char :: "char \<Rightarrow> string \<Rightarrow> string \<Rightarrow> string" where
  "replace_char c r s = concat (map (\<lambda>x. if x = c then r else [x]) s)"

text \<open>The bytes of a string under UTF-8: the string itself.\<close>

definition utf8_bytes :: "string \<Rightarrow> byte list" where
  "utf8_bytes s = map (\<lambda>c. of_char c) s"

text \<open>The three replacements of \<open>generate_code_verifier\<close>, on a string and on one
  character.\<close>

definition url_safe :: "string \<Rightarrow> string" where
  "url_safe s =
     replace_char CHR ''='' '''' (replace_char CHR ''/'' ''_'' (replace_char CHR ''+'' ''-'' s))"

definition url_char :: "char \<Rightarrow> string" where
  "url_char x = url_safe [x]"

text \<open>\<open>generate_code_verifier\<close>, applied to the bytes that \<open>crypto.randomBytes(32)\<close>
  returned.\<close>

definition code_verifier_of :: "byte list \<Rightarrow> string" where
  "code_verifier_of random = url_safe (Buffer_toString_base64 random)"

definition generate_code_challenge :: "platform \<Rightarrow> string \<Rightarrow> string" where
  "generate_code_challenge P code_verifier =
     (let sha = sha256 P (utf8_bytes code_verifier)
      in Buffer_toString_base64url sha)"

text \<open>The specification's encoding, in its own words (sections 3 and 4.1): base64 made
  URL-safe by turning every \<open>+\<close> into \<open>-\<close> and every \<open>/\<close> into \<open>_\<close>, padding
  characters stripped.\<close>

definition spec_base64url :: "byte list \<Rightarrow> string" where
  "spec_base64url bs =
     filter (\<lambda>c. c \<noteq> CHR ''='')
       (map (\<lambda>c. if c = CHR ''+'' then CHR ''-'' else if c = CHR ''/'' then CHR ''_'' else c)
          (base64_encode base64_alphabet True bs))"

section \<open>The URL of a redirect\<close>

text \<open>
  \<open>new URL(input)\<close> without a base, as far as \<open>get_code\<close> depends on it. The input
  is trimmed of leading and trailing C0 controls and spaces, and tabs and newlines are
  removed. It must start with a scheme (a letter, then letters, digits, \<open>+\<close>, \<open>-\<close>,
  \<open>.\<close>) closed by a colon, or the constructor throws. The fragment starts at the first
  \<open>#\<close>, the query is what follows the first \<open>?\<close> before it. Whether the text
  between the scheme and the query (authority and path) is acceptable is decided by
  the runtime: \<open>URL_body_valid\<close>.
\<close>

record URL =
  searchParams :: "(string \<times> string) list"

definition is_alpha :: "char \<Rightarrow> bool" where
  "is_alpha c = (let n = (of_char c :: nat) in (65 \<le> n \<and> n \<le> 90) \<or> (97 \<le> n \<and> n \<le> 122))"

definition is_digit :: "char \<Rightarrow> bool" where
  "is_digit c = (let n = (of_char c :: nat) in 48 \<le> n \<and> n \<le> 57)"

definition is_c0_or_space :: "char \<Rightarrow> bool" where
  "is_c0_or_space c = ((of_char c :: nat) \<le> 32)"

definition is_tab_or_newline :: "char \<Rightarrow> bool" where
  "is_tab_or_newline c = ((of_char c :: nat) \<in> {9, 10, 13})"

definition is_scheme_char :: "char \<Rightarrow> bool" where
  "is_scheme_char c = (is_alpha c \<or> is_digit c \<or> c \<in> {CHR ''+'', CHR ''-'', CHR ''.''})"

definition url_trim :: "string \<Rightarrow> string" where
  "url_trim s =
     filter (\<lambda>c. \<not> is_tab_or_newline c)
       (rev (dropWhile is_c0_or_space (rev (dropWhile is_c0_or_space s))))"

text \<open>The text before the first occurrence of a character, and the text after it
  when there is one.\<close>

definition split_first :: "char \<Rightarrow> string \<Rightarrow> string \<times> string option" where
  "split_first c s =
     (case dropWhile (\<lambda>x. x \<noteq> c) s of
        [] \<Rightarrow> (s, None)
      | _ # rest \<Rightarrow> (takeWhile (\<lambda>x. x \<noteq> c) s, Some rest))"

definition split_scheme :: "string \<Rightarrow> (string \<times> string) option" where
  "split_scheme s =
     (case s of
        [] \<Rightarrow> None
      | c # _ \<Rightarrow>
          if \<not> is_alpha c then None
          else (case dropWhile is_scheme_char s of
                  [] \<Rightarrow> None
                | d # rest \<Rightarrow> if d = CHR '':'' then Some (takeWhile is_scheme_char s, rest) else None))"

text \<open>The \<open>application/x-www-form-urlencoded\<close> parser behind \<open>searchParams\<close>: the
  query is cut at every \<open>&\<close>, empty pieces are skipped, a piece is cut at its first
  \<open>=\<close>, every \<open>+\<close> becomes a space, and percent escapes are decoded.\<close>

fun split_all :: "char \<Rightarrow> string \<Rightarrow> string list" where
  "split_all c [] = [[]]"
| "split_all c (x # xs) =
     (if x = c then [] # split_all c xs
      else (case split_all c xs of
              [] \<Rightarrow> [[x]]
            | p # ps \<Rightarrow> (x # p) # ps))"

definition hex_value :: "char \<Rightarrow> nat option" where
  "hex_value c =
     (let n = (of_char c :: nat)
      in if 48 \<le> n \<and> n \<le> 57 then Some (n - 48)
         else if 65 \<le> n \<and> n \<le> 70 then Some (n - 55)
         else if 97 \<le> n \<and> n \<le> 102 then Some (n - 87)
         else None)"

fun percent_decode :: "string \<Rightarrow> byte list" where
  "percent_decode (p # h # l # rest) =
     (if p = CHR ''%'' then
        (case (hex_value h, hex_value l) of
           (Some x, Some y) \<Rightarrow> of_nat (16 * x + y) # percent_decode rest
         | _ \<Rightarrow> of_char p # percent_decode (h # l # rest))
      else of_char p # percent_decode (h # l # rest))"
| "percent_decode (c # rest) = of_char c # percent_decode rest"
| "percent_decode [] = []"

definition urlencoded_component :: "platform \<Rightarrow> string \<Rightarrow> string" where
  "urlencoded_component P s =
     utf8_decode P (percent_decode (map (\<lambda>c. if c = CHR ''+'' then CHR '' '' else c) s))"

definition urlencoded_parse :: "platform \<Rightarrow> string \<Rightarrow> (string \<times> string) list" where
  "urlencoded_parse P query =
     map (\<lambda>piece.
            (case split_first CHR ''='' piece of
               (name, value) \<Rightarrow>
                 (urlencoded_component P name,
                  urlencoded_component P (case value of None \<Rightarrow> [] | Some v \<Rightarrow> v))))
       (filter (\<lambda>piece. piece \<noteq> []) (split_all CHR ''&'' query))"

definition URL_new :: "platform \<Rightarrow> string \<Rightarrow> error + URL" where
  "URL_new P input =
     (case split_scheme (url_trim input) of
        None \<Rightarrow> Inl TypeError
      | Some (sch, rest) \<Rightarrow>
          (case split_first CHR ''#'' rest of
             (before_fragment, _) \<Rightarrow>
               (case split_first CHR ''?'' before_fragment of
                  (body, query) \<Rightarrow>
                    if \<not> URL_body_valid P sch body then Inl TypeError
                    else Inr \<lparr> searchParams =
                                 urlencoded_parse P (case query of None \<Rightarrow> [] | Some q \<Rightarrow> q) \<rparr>)))"

text \<open>\<open>searchParams.get(name)\<close>: the value of the first pair with that name, or
  \<open>null\<close>.\<close>

definition searchParams_get :: "URL \<Rightarrow> string \<Rightarrow> jsval" where
  "searchParams_get u name =
     (case map_of (searchParams u) name of None \<Rightarrow> JNull | Some v \<Rightarrow> JStr v)"

text \<open>Texts on which the parser's result is plain to state: a scheme; an authority and
  path without white space, \<open>?\<close> or \<open>#\<close>; a parameter value without white space,
  \<open>#\<close>, \<open>&\<close>, \<open>+\<close> or \<open>%\<close>.\<close>

definition visible :: "char \<Rightarrow> bool" where
  "visible c = (\<not> is_c0_or_space c)"

definition url_body_text :: "string \<Rightarrow> bool" where
  "url_body_text s = list_all (\<lambda>c. visible c \<and> c \<noteq> CHR ''?'' \<and> c \<noteq> CHR ''#'') s"

definition plain_value :: "string \<Rightarrow> bool" where
  "plain_value s =
     list_all (\<lambda>c. visible c \<and> c \<noteq> CHR ''#'' \<and> c \<noteq> CHR ''&'' \<and> c \<noteq> CHR ''+'' \<and> c \<noteq> CHR ''%'') s"

definition scheme_text :: "string \<Rightarrow> bool" where
  "scheme_text s = (case s of [] \<Rightarrow> False | c # _ \<Rightarrow> is_alpha c \<and> list_all is_scheme_char s)"

section \<open>Token storage on a file\<close>

text \<open>
  The file system as \<open>FileTokenStorage\<close> sees it: a path names nothing, a text file
  or a directory. \<open>fs.access\<close> rejects a path that names nothing; \<open>fs.readFile\<close> and
  \<open>fs.writeFile\<close> reject a directory; \<open>fs.writeFile\<close> creates or replaces a file.
  The content of a text file is the string written with encoding \<open>utf-8\<close>.
\<close>

datatype fs_node = File string | Directory

type_synonym fs = "string \<rightharpoonup> fs_node"

definition fs_access :: "string \<Rightarrow> fs \<Rightarrow> error + unit" where
  "fs_access path files =
     (case files path of None \<Rightarrow> Inl (SystemError ''ENOENT'') | Some _ \<Rightarrow> Inr ())"

definition fs_readFile :: "string \<Rightarrow> fs \<Rightarrow> error + string" where
  "fs_readFile path files =
     (case files path of
        None \<Rightarrow> Inl (SystemError ''ENOENT'')
      | Some Directory \<Rightarrow> Inl (SystemError ''EISDIR'')
      | Some (File content) \<Rightarrow> Inr content)"

definition fs_writeFile :: "string \<Rightarrow> string \<Rightarrow> fs \<Rightarrow> (error + unit) \<times> fs" where
  "fs_writeFile path content files =
     (case files path of
        Some Directory \<Rightarrow> (Inl (SystemError ''EISDIR''), files)
      | _ \<Rightarrow> (Inr (), files(path \<mapsto> File content)))"

text \<open>\<open>FileTokenStorage\<close>: \<open>save\<close> on its declared parameter type, a string;
  \<open>load\<close> gives \<open>undefined\<close> when \<open>fs.access\<close> rejects.\<close>

definition FileTokenStorage_save :: "string \<Rightarrow> string \<Rightarrow> fs \<Rightarrow> (error + unit) \<times> fs" where
  "FileTokenStorage_save path token files = fs_writeFile path token files"

definition FileTokenStorage_load :: "string \<Rightarrow> fs \<Rightarrow> (error + jsval) \<times> fs" where
  "FileTokenStorage_load path files =
     (case fs_access path files of
        Inl err \<Rightarrow> (Inr JUndefined, files)
      | Inr _ \<Rightarrow>
          (case fs_readFile path files of
             Inl e \<Rightarrow> (Inl e, files)
           | Inr content \<Rightarrow> (Inr (JStr content), files)))"

section \<open>The client\<close>

text \<open>
  A request as it is handed to an axios client, and the response it resolves to. The
  constructor sets \<open>validateStatus\<close> to accept every status, so a response of any
  status resolves, and only a failure of the transport rejects. Header names of a
  response are in lower case.
\<close>

record request =
  req_method :: string
  req_url :: string
  req_data :: jsval
  req_headers :: "(string \<times> string) list"
  req_maxRedirects :: "nat option"

record response =
  status :: int
  headers :: "string \<rightharpoonup> string"
  data :: jsval

text \<open>
  The world outside the program has a state of type \<open>'w\<close>; every collaborator is a
  function on it. The token storage receives whatever value \<open>authenticate\<close> hands it.
\<close>

record 'w TokenStorage =
  save :: "jsval \<Rightarrow> 'w \<Rightarrow> (error + unit) \<times> 'w"
  load :: "'w \<Rightarrow> (error + jsval) \<times> 'w"

record 'w MainOpts =
  token_storage :: "'w TokenStorage option"
  auth_url :: jsval
  serial_num :: jsval
  login_email :: jsval
  login_password :: jsval

text \<open>
  The object \<open>Main\<close>: its options, its two HTTP clients, the value read from the
  property \<open>baseURL\<close> of the device client, the source of random bytes and the
  runtime. The device client sends its default headers with every request.
\<close>

record 'w Main =
  opts :: "'w MainOpts"
  authHttp :: "request \<Rightarrow> 'w \<Rightarrow> (error + response) \<times> 'w"
  envoyHttp :: "(string \<rightharpoonup> string) \<Rightarrow> request \<Rightarrow> 'w \<Rightarrow> (error + response) \<times> 'w"
  envoyHttp_baseURL :: jsval
  crypto_randomBytes :: "nat \<Rightarrow> 'w \<Rightarrow> byte list \<times> 'w"
  runtime :: platform

text \<open>Every call of a collaborator is recorded, in order.\<close>

datatype event =
    Load
  | Save jsval
  | RandomBytes nat
  | AuthRequest request
  | EnvoyRequest "string \<rightharpoonup> string" request

record 'w state =
  world :: 'w
  trace :: "event list"
  common_headers :: "string \<rightharpoonup> string"

definition generate_code_verifier :: "'w Main \<Rightarrow> 'w state \<Rightarrow> string \<times> 'w state" where
  "generate_code_verifier M st =
     (case crypto_randomBytes M 32 (world st) of
        (random, w) \<Rightarrow>
          (code_verifier_of random,
           st\<lparr> world := w, trace := trace st @ [RandomBytes 32] \<rparr>))"

text \<open>The request of \<open>get_code\<close>. Building it evaluates the template literal of
  \<open>redirectUri\<close>, which can throw.\<close>

definition login_request :: "'w Main \<Rightarrow> string \<Rightarrow> error + request" where
  "login_request M code_challenge =
     (case to_string (runtime M) (envoyHttp_baseURL M) of
        Inl e \<Rightarrow> Inl e
      | Inr base \<Rightarrow>
          Inr \<lparr> req_method = ''post'',
                req_url = ''/login'',
                req_data = JObj
                  [(''username'', login_email (opts M)),
                   (''password'', login_password (opts M)),
                   (''codeChallenge'', JStr code_challenge),
                   (''redirectUri'', JStr (base @ ''/auth/callback'')),
                   (''client'', JStr ''envoy-ui''),
                   (''clientId'', JStr ''envoy-ui-client''),
                   (''authFlow'', JStr ''oauth''),
                   (''serialNum'', serial_num (opts M)),
                   (''grantType'', JStr ''authorize''),
                   (''state'', JStr ''''),
                   (''invalidSerialNum'', JStr '''')],
                req_headers =
                  [(''Content-Type'', ''application/x-www-form-urlencoded''),
                   (''Accept'', ''application/json'')],
                req_maxRedirects = Some 0 \<rparr>)"

definition get_code :: "'w Main \<Rightarrow> string \<Rightarrow> 'w state \<Rightarrow> (error + jsval) \<times> 'w state" where
  "get_code M code_challenge st =
     (case login_request M code_challenge of
        Inl e \<Rightarrow> (Inl e, st)
      | Inr req \<Rightarrow>
          (case authHttp M req (world st) of
             (r, w) \<Rightarrow>
               (let st' = st\<lparr> world := w, trace := trace st @ [AuthRequest req] \<rparr>
                in case r of
                     Inl e \<Rightarrow> (Inl e, st')
                   | Inr resp \<Rightarrow>
                       if status resp \<noteq> 302 then
                         (Inl (Error (''Unexpected HTTP status. Expected: 302, Found: ''
                                       @ decimal (status resp))), st')
                       else
                         (case URL_new (runtime M)
                                 (case headers resp ''location'' of
                                    None \<Rightarrow> ''undefined''
                                  | Some location \<Rightarrow> location) of
                            Inl e \<Rightarrow> (Inl e, st')
                          | Inr loginRedirectLocation \<Rightarrow>
                              (Inr (searchParams_get loginRedirectLocation ''code''), st')))))"

definition jwt_request :: "'w Main \<Rightarrow> string \<Rightarrow> jsval \<Rightarrow> error + request" where
  "jwt_request M code_verifier code =
     (case to_string (runtime M) (envoyHttp_baseURL M) of
        Inl e \<Rightarrow> Inl e
      | Inr base \<Rightarrow>
          Inr \<lparr> req_method = ''post'',
                req_url = ''/auth/get_jwt'',
                req_data = JObj
                  [(''client_id'', JStr ''envoy-ui-1''),
                   (''code'', code),
                   (''code_verifier'', JStr code_verifier),
                   (''grant_type'', JStr ''authorization_code''),
                   (''redirect_uri'', JStr (base @ ''/auth/callback''))],
                req_headers = [],
                req_maxRedirects = Some 0 \<rparr>)"

definition get_jwt :: "'w Main \<Rightarrow> string \<Rightarrow> jsval \<Rightarrow> 'w state \<Rightarrow> (error + jsval) \<times> 'w state" where
  "get_jwt M code_verifier code st =
     (case jwt_request M code_verifier code of
        Inl e \<Rightarrow> (Inl e, st)
      | Inr req \<Rightarrow>
          (case envoyHttp M (common_headers st) req (world st) of
             (r, w) \<Rightarrow>
               (let st' = st\<lparr> world := w,
                               trace := trace st @ [EnvoyRequest (common_headers st) req] \<rparr>
                in case r of
                     Inl e \<Rightarrow> (Inl e, st')
                   | Inr resp \<Rightarrow> (js_get (data resp) ''access_token'', st'))))"

text \<open>\<open>array.reduce(callback, init)\<close>; on anything but an array the call throws.\<close>

fun reduce_items :: "(jsval \<Rightarrow> jsval \<Rightarrow> error + jsval) \<Rightarrow> jsval list \<Rightarrow> jsval \<Rightarrow> error + jsval" where
  "reduce_items f [] acc = Inr acc"
| "reduce_items f (item # items) acc =
     (case f acc item of Inl e \<Rightarrow> Inl e | Inr acc' \<Rightarrow> reduce_items f items acc')"

definition array_reduce :: "jsval \<Rightarrow> (jsval \<Rightarrow> jsval \<Rightarrow> error + jsval) \<Rightarrow> jsval \<Rightarrow> error + jsval" where
  "array_reduce arr f init =
     (case arr of
        JArr items \<Rightarrow> reduce_items f items init
      | _ \<Rightarrow> Inl TypeError)"

text \<open>The three callbacks, \<open>sum + (condition ? item.wNow : 0)\<close>, with the running
  sum called \<open>acc\<close> and the literal \<open>0\<close> the positive zero. The operator \<open>&&\<close>
  reads \<open>measurementType\<close> only when the type is \<open>eim\<close>.\<close>

definition production_step :: "platform \<Rightarrow> jsval \<Rightarrow> jsval \<Rightarrow> error + jsval" where
  "production_step P acc item =
     (case js_get item ''type'' of
        Inl e \<Rightarrow> Inl e
      | Inr t \<Rightarrow>
          (case (if t = JStr ''eim'' then js_get item ''wNow'' else Inr (JNum (Zero False))) of
             Inl e \<Rightarrow> Inl e
           | Inr x \<Rightarrow> js_add P acc x))"

definition eim_measurement :: "string \<Rightarrow> jsval \<Rightarrow> error + bool" where
  "eim_measurement m item =
     (case js_get item ''type'' of
        Inl e \<Rightarrow> Inl e
      | Inr t \<Rightarrow>
          if t \<noteq> JStr ''eim'' then Inr False
          else (case js_get item ''measurementType'' of
                  Inl e \<Rightarrow> Inl e
                | Inr mt \<Rightarrow> Inr (mt = JStr m)))"

definition consumption_step :: "platform \<Rightarrow> jsval \<Rightarrow> jsval \<Rightarrow> error + jsval" where
  "consumption_step P acc item =
     (case eim_measurement ''total-consumption'' item of
        Inl e \<Rightarrow> Inl e
      | Inr c \<Rightarrow>
          (case (if c then js_get item ''wNow'' else Inr (JNum (Zero False))) of
             Inl e \<Rightarrow> Inl e
           | Inr x \<Rightarrow> js_add P acc x))"

definition net_step :: "platform \<Rightarrow> jsval \<Rightarrow> jsval \<Rightarrow> error + jsval" where
  "net_step P acc item =
     (case eim_measurement ''net-consumption'' item of
        Inl e \<Rightarrow> Inl e
      | Inr c \<Rightarrow>
          (case (if c then js_get item ''wNow'' else Inr (JNum (Zero False))) of
             Inl e \<Rightarrow> Inl e
           | Inr x \<Rightarrow> js_add P acc x))"

record PowerReading =
  production :: jsval
  consumption :: jsval
  net :: jsval

definition power_request :: request where
  "power_request =
     \<lparr> req_method = ''get'', req_url = ''/production.json?details=1'', req_data = JUndefined,
       req_headers = [], req_maxRedirects = None \<rparr>"

definition reduce_power :: "platform \<Rightarrow> jsval \<Rightarrow> error + PowerReading" where
  "reduce_power P body =
     (case js_get body ''production'' of
        Inl e \<Rightarrow> Inl e
      | Inr ps \<Rightarrow>
          (case array_reduce ps (production_step P) (JNum (Zero False)) of
             Inl e \<Rightarrow> Inl e
           | Inr p \<Rightarrow>
               (case js_get body ''consumption'' of
                  Inl e \<Rightarrow> Inl e
                | Inr cs \<Rightarrow>
                    (case array_reduce cs (consumption_step P) (JNum (Zero False)) of
                       Inl e \<Rightarrow> Inl e
                     | Inr c \<Rightarrow>
                         (case array_reduce cs (net_step P) (JNum (Zero False)) of
                            Inl e \<Rightarrow> Inl e
                          | Inr n \<Rightarrow> Inr \<lparr> production = p, consumption = c, net = n \<rparr>)))))"

definition get_current_power :: "'w Main \<Rightarrow> 'w state \<Rightarrow> (error + PowerReading) \<times> 'w state" where
  "get_current_power M st =
     (case envoyHttp M (common_headers st) power_request (world st) of
        (r, w) \<Rightarrow>
          (let st' = st\<lparr> world := w,
                          trace := trace st @ [EnvoyRequest (common_headers st) power_request] \<rparr>
           in case r of
                Inl e \<Rightarrow> (Inl e, st')
              | Inr resp \<Rightarrow>
                  if status resp \<noteq> 200 then
                    (Inl (Error (''Error while fetching production data (HTTP status: ''
                                  @ decimal (status resp) @ '')'' @ [CHR 0x0A]
                                  @ (case JSON_stringify (runtime M) (data resp) of
                                       None \<Rightarrow> ''undefined''
                                     | Some text \<Rightarrow> text))), st')
                  else (reduce_power (runtime M) (data resp), st')))"

text \<open>The last statement of \<open>authenticate\<close>: the default \<open>Authorization\<close> header of
  the device client.\<close>

definition set_authorization :: "'w Main \<Rightarrow> jsval \<Rightarrow> 'w state \<Rightarrow> (error + unit) \<times> 'w state" where
  "set_authorization M jwt st =
     (case to_string (runtime M) jwt of
        Inl e \<Rightarrow> (Inl e, st)
      | Inr text \<Rightarrow>
          (Inr (), st\<lparr> common_headers := (common_headers st)(''Authorization'' \<mapsto> ''Bearer '' @ text) \<rparr>))"

definition authenticate :: "'w Main \<Rightarrow> 'w state \<Rightarrow> (error + unit) \<times> 'w state" where
  "authenticate M st =
     (case token_storage (opts M) of
        None \<Rightarrow> (Inl TypeError, st)
      | Some storage \<Rightarrow>
          (case load storage (world st) of
             (r, w) \<Rightarrow>
               (let st1 = st\<lparr> world := w, trace := trace st @ [Load] \<rparr>
                in case r of
                     Inl e \<Rightarrow> (Inl e, st1)
                   | Inr jwt \<Rightarrow>
                       if jwt = JUndefined \<or> jwt = JNull then
                         (case generate_code_verifier M st1 of
                            (code_verifier, st2) \<Rightarrow>
                              (let code_challenge = generate_code_challenge (runtime M) code_verifier
                               in case get_code M code_challenge st2 of
                                    (Inl e, st3) \<Rightarrow> (Inl e, st3)
                                  | (Inr code, st3) \<Rightarrow>
                                      (case get_jwt M code_verifier code st3 of
                                         (Inl e, st4) \<Rightarrow> (Inl e, st4)
                                       | (Inr jwt', st4) \<Rightarrow>
                                           (case save storage jwt' (world st4) of
                                              (r', w') \<Rightarrow>
                                                (let st5 = st4\<lparr> world := w',
                                                                 trace := trace st4 @ [Save jwt'] \<rparr>
                                                 in case r' of
                                                      Inl e \<Rightarrow> (Inl e, st5)
                                                    | Inr _ \<Rightarrow> set_authorization M jwt' st5)))))
                       else set_authorization M jwt st1)))"

definition main :: "'w Main \<Rightarrow> 'w state \<Rightarrow> (error + PowerReading) \<times> 'w state" where
  "main M st =
     (case authenticate M st of
        (Inl e, st') \<Rightarrow> (Inl e, st')
      | (Inr _, st') \<Rightarrow> get_current_power M st')"

section \<open>The reduction in the specification's words\<close>

text \<open>The sum of a list of numbers: added in doubles from left to right, starting
  from zero, in the order of the array.\<close>

definition double_sum :: "double list \<Rightarrow> double" where
  "double_sum ds = foldl dadd (Zero False) ds"

text \<open>The reading of an entry, and the three sums as section 4.5 of the specification
  words them: production over the entries of type \<open>eim\<close>, consumption over the entries
  of type \<open>eim\<close> that measure \<open>total-consumption\<close>, net over the entries that measure
  \<open>net-consumption\<close>.\<close>

definition wNow_of :: "jsval \<Rightarrow> double" where
  "wNow_of item = (case js_get item ''wNow'' of Inr (JNum d) \<Rightarrow> d | _ \<Rightarrow> Zero False)"

definition field_is :: "string \<Rightarrow> string \<Rightarrow> jsval \<Rightarrow> bool" where
  "field_is name v item = (js_get item name = Inr (JStr v))"

definition spec_production :: "jsval list \<Rightarrow> double" where
  "spec_production ps = double_sum (map wNow_of (filter (field_is ''type'' ''eim'') ps))"

definition spec_consumption :: "jsval list \<Rightarrow> double" where
  "spec_consumption cs =
     double_sum (map wNow_of
       (filter (\<lambda>item. field_is ''type'' ''eim'' item
                        \<and> field_is ''measurementType'' ''total-consumption'' item) cs))"

definition spec_net :: "jsval list \<Rightarrow> double" where
  "spec_net cs =
     double_sum (map wNow_of (filter (field_is ''measurementType'' ''net-consumption'') cs))"

text \<open>The net sum as the code filters it: over the entries of type \<open>eim\<close> that
  measure \<open>net-consumption\<close>.\<close>

definition eim_net :: "jsval list \<Rightarrow> double" where
  "eim_net cs =
     double_sum (map wNow_of
       (filter (\<lambda>item. field_is ''type'' ''eim'' item
                        \<and> field_is ''measurementType'' ''net-consumption'' item) cs))"

text \<open>What the reduction needs of an entry: it is neither \<open>null\<close> nor \<open>undefined\<close>,
  and its \<open>wNow\<close> is a number when a filter lets it pass.\<close>

definition wNow_is_number :: "jsval \<Rightarrow> bool" where
  "wNow_is_number item = (case js_get item ''wNow'' of Inr (JNum d) \<Rightarrow> True | _ \<Rightarrow> False)"

definition production_entry :: "jsval \<Rightarrow> bool" where
  "production_entry item =
     (item \<noteq> JUndefined \<and> item \<noteq> JNull
      \<and> (field_is ''type'' ''eim'' item \<longrightarrow> wNow_is_number item))"

definition consumption_entry :: "jsval \<Rightarrow> bool" where
  "consumption_entry item =
     (item \<noteq> JUndefined \<and> item \<noteq> JNull
      \<and> (field_is ''type'' ''eim'' item
           \<and> (field_is ''measurementType'' ''total-consumption'' item
                \<or> field_is ''measurementType'' ''net-consumption'' item)
          \<longrightarrow> wNow_is_number item))"

section \<open>The calls of a handshake\<close>

text \<open>The kind of call behind an event, the calls of a complete handshake in their
  order, and the calls made between two states.\<close>

datatype call = CallLoad | CallRandomBytes | CallAuthRequest | CallEnvoyRequest | CallSave

fun call_of :: "event \<Rightarrow> call" where
  "call_of Load = CallLoad"
| "call_of (Save token) = CallSave"
| "call_of (RandomBytes n) = CallRandomBytes"
| "call_of (AuthRequest req) = CallAuthRequest"
| "call_of (EnvoyRequest hs req) = CallEnvoyRequest"

definition handshake_calls :: "call list" where
  "handshake_calls = [CallLoad, CallRandomBytes, CallAuthRequest, CallEnvoyRequest, CallSave]"

definition new_calls :: "'w state \<Rightarrow> 'w state \<Rightarrow> call list" where
  "new_calls st st' = map call_of (drop (length (trace st)) (trace st'))"

section \<open>A mock configuration\<close>

text \<open>
  A configuration on which the theorems below are instantiated: the world is the
  value held by an in-memory token storage; the identity service and the device answer
  with fixed responses; the runtime stubs decode ASCII as it is, accept every authority
  and path, and stand in for the digest and the printers.
\<close>

definition memory_storage :: "jsval TokenStorage" where
  "memory_storage = \<lparr> save = (\<lambda>token w. (Inr (), token)), load = (\<lambda>w. (Inr w, w)) \<rparr>"

definition mock_platform :: platform where
  "mock_platform =
     \<lparr> sha256 = (\<lambda>bs. take 32 (bs @ replicate 32 0)),
       number_to_string = (\<lambda>r. ''0''),
       JSON_stringify = (\<lambda>v. Some ''{}''),
       URL_body_valid = (\<lambda>sch body. True),
       utf8_decode = map (\<lambda>b. char_of (unat b)) \<rparr>"

definition mock_main :: "response \<Rightarrow> response \<Rightarrow> response \<Rightarrow> jsval Main" where
  "mock_main login_response jwt_response power_response =
     \<lparr> opts = \<lparr> token_storage = Some memory_storage,
                auth_url = JStr ''https://entrez.enphaseenergy.com'',
                serial_num = JStr ''122000000001'',
                login_email = JStr ''owner@example.org'',
                login_password = JStr ''secret'' \<rparr>,
       authHttp = (\<lambda>req w. (Inr login_response, w)),
       envoyHttp = (\<lambda>hs req w.
          (Inr (if req_url req = ''/auth/get_jwt'' then jwt_response else power_response), w)),
       envoyHttp_baseURL = JUndefined,
       crypto_randomBytes = (\<lambda>n w. (replicate n 0, w)),
       runtime = mock_platform \<rparr>"

definition redirect_response :: "string \<Rightarrow> response" where
  "redirect_response location =
     \<lparr> status = 302, headers = [''location'' \<mapsto> location], data = JStr '''' \<rparr>"

definition json_response :: "int \<Rightarrow> jsval \<Rightarrow> response" where
  "json_response code body = \<lparr> status = code, headers = Map.empty, data = body \<rparr>"

definition initial_state :: "'w \<Rightarrow> 'w state" where
  "initial_state w = \<lparr> world = w, trace = [], common_headers = Map.empty \<rparr>"

text \<open>The reading set of the specification's example (section 8).\<close>

definition example_body :: jsval where
  "example_body = JObj
     [(''production'', JArr
         [JObj [(''type'', JStr ''eim''), (''wNow'', JNum (double_of_int 500))],
          JObj [(''type'', JStr ''other''), (''wNow'', JNum (double_of_int 999))]]),
      (''consumption'', JArr
         [JObj [(''type'', JStr ''eim''), (''measurementType'', JStr ''total-consumption''),
                (''wNow'', JNum (double_of_int 200))],
          JObj [(''type'', JStr ''eim''), (''measurementType'', JStr ''net-consumption''),
                (''wNow'', JNum (double_of_int (- 50)))]])]"

text \<open>A reading set whose only entry measures \<open>net-consumption\<close> without being of
  type \<open>eim\<close>, one with no entries, one whose entry of type \<open>eim\<close> has no
  \<open>wNow\<close>, one whose only entry is \<open>null\<close>, one whose entries pass no filter and
  have no \<open>wNow\<close>, and one with the readings 0.1 and 0.2.\<close>

definition net_only_body :: jsval where
  "net_only_body = JObj
     [(''production'', JArr []),
      (''consumption'', JArr
         [JObj [(''type'', JStr ''other''), (''measurementType'', JStr ''net-consumption''),
                (''wNow'', JNum (double_of_int 7))]])]"

definition empty_body :: jsval where
  "empty_body = JObj [(''production'', JArr []), (''consumption'', JArr [])]"

definition no_wNow_body :: jsval where
  "no_wNow_body = JObj
     [(''production'', JArr [JObj [(''type'', JStr ''eim'')]]), (''consumption'', JArr [])]"

definition null_entry_body :: jsval where
  "null_entry_body = JObj [(''production'', JArr [JNull]), (''consumption'', JArr [])]"

definition other_entries_body :: jsval where
  "other_entries_body = JObj
     [(''production'', JArr [JObj [(''type'', JStr ''inverters'')], JNum (double_of_int 3)]),
      (''consumption'', JArr [JObj [(''measurementType'', JStr ''net-consumption'')]])]"

definition fraction_body :: jsval where
  "fraction_body = JObj
     [(''production'', JArr
         [JObj [(''type'', JStr ''eim''), (''wNow'', JNum (Finite False 3602879701896397 (- 55)))],
          JObj [(''type'', JStr ''eim''), (''wNow'', JNum (Finite False 3602879701896397 (- 54)))]]),
      (''consumption'', JArr [])]"

section \<open>Lemmas\<close>

subsection \<open>Base64\<close>

lemma length_base64_alphabet: "length base64_alphabet = 64"
  by (simp add: base64_alphabet_def)

lemma length_base64url_alphabet: "length base64url_alphabet = 64"
  by (simp add: base64url_alphabet_def)

lemma replace_char_append: "replace_char c r (s @ t) = replace_char c r s @ replace_char c r t"
  by (simp add: replace_char_def)

lemma url_char_table: "map url_char base64_alphabet = map (\<lambda>c. [c]) base64url_alphabet"
  by (simp add: base64_alphabet_def base64url_alphabet_def url_char_def url_safe_def replace_char_def)

lemma url_char_nth:
  assumes "i < 64" shows "url_char (base64_alphabet ! i) = [base64url_alphabet ! i]"
proof -
  have "map url_char base64_alphabet ! i = map (\<lambda>c. [c]) base64url_alphabet ! i"
    by (simp only: url_char_table)
  with assms show ?thesis by (simp add: length_base64_alphabet length_base64url_alphabet)
qed

lemma bad_not_in_url:
  "CHR ''+'' \<notin> set base64url_alphabet"
  "CHR ''/'' \<notin> set base64url_alphabet"
  "CHR ''='' \<notin> set base64url_alphabet"
  by (simp_all add: base64url_alphabet_def)

lemma base64_encode_chars: "length tbl = 64 \<Longrightarrow> set (base64_encode tbl False bs) \<subseteq> set tbl"
  by (induction tbl False bs rule: base64_encode.induct) (auto simp: Let_def)

lemma url_safe_append: "url_safe (s @ t) = url_safe s @ url_safe t"
  by (simp add: url_safe_def replace_char_append)

lemma url_safe_Cons: "url_safe (x # s) = url_char x @ url_safe s"
  by (simp add: url_safe_def url_char_def url_safe_def replace_char_def)

lemma url_safe_Nil: "url_safe [] = []"
  by (simp add: url_safe_def replace_char_def)

lemma url_char_pad: "url_char CHR ''='' = []"
  by (simp add: url_char_def url_safe_def replace_char_def)

lemma url_safe_base64_encode:
  "pad \<Longrightarrow> tbl = base64_alphabet \<Longrightarrow>
     url_safe (base64_encode tbl pad bs) = base64_encode base64url_alphabet False bs"
proof (induction tbl pad bs rule: base64_encode.induct)
  case (1 tbl pad a b c rest)
  then show ?case
    by (simp add: Let_def url_safe_Cons url_char_nth)
next
  case (2 tbl pad a b)
  then show ?case
    by (simp add: Let_def url_safe_Cons url_char_nth url_safe_Nil url_char_pad)
next
  case (3 tbl pad a)
  then show ?case
    by (simp add: Let_def url_safe_Cons url_char_nth url_safe_Nil url_char_pad)
next
  case (4 tbl pad)
  then show ?case by (simp add: url_safe_Nil)
qed

lemma code_verifier_of_eq: "code_verifier_of bs = Buffer_toString_base64url bs"
  using url_safe_base64_encode [of True base64_alphabet bs]
  by (simp add: code_verifier_of_def Buffer_toString_base64url_def Buffer_toString_base64_def)

lemma length_base64_encode:
  "length (base64_encode tbl False bs) = (4 * length bs + 2) div 3"
  by (induction tbl False bs rule: base64_encode.induct) (auto simp: Let_def)

lemma chars_of_base64url:
  "CHR ''+'' \<notin> set (base64_encode base64url_alphabet False bs)"
  "CHR ''/'' \<notin> set (base64_encode base64url_alphabet False bs)"
  "CHR ''='' \<notin> set (base64_encode base64url_alphabet False bs)"
  using base64_encode_chars [OF length_base64url_alphabet, of bs] bad_not_in_url
  by blast+

lemma spec_base64url_eq: "spec_base64url bs = base64_encode base64url_alphabet False bs"
proof -
  have "filter (\<lambda>c. c \<noteq> CHR ''='')
          (map (\<lambda>c. if c = CHR ''+'' then CHR ''-'' else if c = CHR ''/'' then CHR ''_'' else c) s)
        = url_safe s" for s
    by (induction s) (simp_all add: url_safe_Nil url_safe_Cons url_char_def url_safe_def replace_char_def)
  then have "spec_base64url bs = url_safe (base64_encode base64_alphabet True bs)"
    by (simp add: spec_base64url_def)
  then show ?thesis by (simp add: url_safe_base64_encode)
qed

subsection \<open>Doubles\<close>

text \<open>The model of addition on known sums: 0.1 + 0.2 is 0.30000000000000004; a tie
  goes to the even mantissa (\<open>2 ^ 53 + 1\<close> is \<open>2 ^ 53\<close>, \<open>2 ^ 53 + 3\<close> is
  \<open>2 ^ 53 + 4\<close>); the largest double plus half a unit in its last place is infinite;
  the smallest double added to itself is exact; opposite values give the positive
  zero.\<close>

lemma dadd_examples:
  "dadd (Finite False 3602879701896397 (- 55)) (Finite False 3602879701896397 (- 54))
     = Finite False 1351079888211149 (- 52)"
  "dadd (Finite False 1 53) (Finite False 1 0) = Finite False 1 53"
  "dadd (Finite False 1 53) (Finite False 3 0) = Finite False 2251799813685249 2"
  "dadd (Finite False 9007199254740991 971) (Finite False 1 970) = Infinity False"
  "dadd (Finite False 9007199254740991 971) (Finite False 1 969)
     = Finite False 9007199254740991 971"
  "dadd (Finite False 125 2) (Finite True 125 2) = Zero False"
  "dadd (Finite False 125 2) (Finite True 25 1) = Finite False 225 1"
  by (simp_all add: round_to_double_def signed_int_def Let_def bit_length.simps normalise.simps)

lemma dadd_smallest_example:
  "dadd (Finite False 1 (- 1074)) (Finite False 1 (- 1074)) = Finite False 1 (- 1073)"
proof -
  have k: "bit_length 2 - 53 = 0"
    by (simp add: bit_length.simps)
  have "round_to_double False 2 (- 1074) = Finite False 1 (- 1073)"
    unfolding round_to_double_def k Let_def
    by (simp add: normalise.simps bit_length.simps)
  then show ?thesis
    by (simp add: signed_int_def Let_def)
qed

lemma dadd_Zero_Finite: "dadd (Zero False) (Finite s m e) = Finite s m e"
  by simp

lemma double_of_int_examples:
  "double_of_int 500 = Finite False 125 2"
  "double_of_int 999 = Finite False 999 0"
  "double_of_int 200 = Finite False 25 3"
  "double_of_int (- 50) = Finite True 25 1"
  "double_of_int 7 = Finite False 7 0"
  "double_of_int 3 = Finite False 3 0"
  "double_of_int 0 = Zero False"
  by (simp_all add: double_of_int_def normalise.simps)

lemma round_to_double_not_Zero: "round_to_double s M E \<noteq> Zero t"
  by (simp add: round_to_double_def Let_def split: prod.splits)

lemma dadd_Zero_right: "acc \<noteq> Zero True \<Longrightarrow> dadd acc (Zero False) = acc"
  by (cases acc) auto

lemma dadd_not_negative_zero: "acc \<noteq> Zero True \<Longrightarrow> dadd acc d \<noteq> Zero True"
  by (cases acc; cases d) (auto simp: Let_def round_to_double_not_Zero)

lemma foldl_dadd_not_negative_zero:
  "acc \<noteq> Zero True \<Longrightarrow> foldl dadd acc ds \<noteq> Zero True"
  by (induction ds arbitrary: acc) (simp_all add: dadd_not_negative_zero)

subsection \<open>The reduction of a reading set\<close>

lemma js_add_nums: "js_add P (JNum a) (JNum b) = Inr (JNum (dadd a b))"
  by (simp add: js_add_def is_stringish_def)

lemma js_get_defined:
  assumes "item \<noteq> JUndefined" and "item \<noteq> JNull"
  obtains v where "js_get item name = Inr v"
  using assms by (cases item) simp_all

lemma wNow_is_number_cases:
  assumes "wNow_is_number item"
  shows "js_get item ''wNow'' = Inr (JNum (wNow_of item))"
proof (cases "js_get item ''wNow''")
  case (Inl e)
  with assms show ?thesis by (simp add: wNow_is_number_def)
next
  case (Inr v)
  with assms show ?thesis
    by (cases v) (simp_all add: wNow_is_number_def wNow_of_def)
qed

lemma reduce_items_filter:
  assumes "\<And>item. item \<in> set xs \<Longrightarrow> ok item"
    and "\<And>acc item. ok item \<Longrightarrow> acc \<noteq> Zero True \<Longrightarrow>
           f (JNum acc) item = Inr (JNum (if p item then dadd acc (wNow_of item) else acc))"
    and "a \<noteq> Zero True"
  shows "reduce_items f xs (JNum a) = Inr (JNum (foldl dadd a (map wNow_of (filter p xs))))"
  using assms(1,3)
proof (induction xs arbitrary: a)
  case Nil
  then show ?case by simp
next
  case (Cons x xs)
  let ?a' = "if p x then dadd a (wNow_of x) else a"
  have "ok x" using Cons.prems(1) by simp
  then have step: "f (JNum a) x = Inr (JNum ?a')"
    using Cons.prems(2) by (rule assms(2))
  have "?a' \<noteq> Zero True"
    using Cons.prems(2) by (simp add: dadd_not_negative_zero)
  then have "reduce_items f xs (JNum ?a')
      = Inr (JNum (foldl dadd ?a' (map wNow_of (filter p xs))))"
    using Cons.prems(1) by (intro Cons.IH) simp_all
  with step show ?case by simp
qed

lemma production_step_entry:
  assumes "production_entry item" and "acc \<noteq> Zero True"
  shows "production_step P (JNum acc) item
         = Inr (JNum (if field_is ''type'' ''eim'' item then dadd acc (wNow_of item) else acc))"
proof -
  from assms(1) obtain t where t: "js_get item ''type'' = Inr t"
    by (auto simp: production_entry_def elim: js_get_defined)
  show ?thesis
  proof (cases "t = JStr ''eim''")
    case True
    with t assms(1) have "wNow_is_number item"
      by (simp add: production_entry_def field_is_def)
    then have "js_get item ''wNow'' = Inr (JNum (wNow_of item))"
      by (rule wNow_is_number_cases)
    with t True show ?thesis
      by (simp add: production_step_def field_is_def js_add_nums)
  next
    case False
    with t assms(2) show ?thesis
      by (simp add: production_step_def field_is_def js_add_nums dadd_Zero_right)
  qed
qed

lemma eim_measurement_entry:
  assumes "item \<noteq> JUndefined" and "item \<noteq> JNull"
  shows "eim_measurement m item
         = Inr (field_is ''type'' ''eim'' item \<and> field_is ''measurementType'' m item)"
proof -
  from assms obtain t where t: "js_get item ''type'' = Inr t"
    by (auto elim: js_get_defined)
  from assms obtain mt where mt: "js_get item ''measurementType'' = Inr mt"
    by (auto elim: js_get_defined)
  show ?thesis
    using t mt by (simp add: eim_measurement_def field_is_def)
qed

lemma consumption_step_entry:
  assumes "consumption_entry item" and "acc \<noteq> Zero True"
  shows "consumption_step P (JNum acc) item
         = Inr (JNum (if field_is ''type'' ''eim'' item
                         \<and> field_is ''measurementType'' ''total-consumption'' item
                      then dadd acc (wNow_of item) else acc))"
proof -
  have e: "eim_measurement ''total-consumption'' item
      = Inr (field_is ''type'' ''eim'' item \<and> field_is ''measurementType'' ''total-consumption'' item)"
    using assms(1) by (intro eim_measurement_entry) (simp_all add: consumption_entry_def)
  show ?thesis
  proof (cases "field_is ''type'' ''eim'' item
                \<and> field_is ''measurementType'' ''total-consumption'' item")
    case True
    with assms(1) have "wNow_is_number item"
      by (simp add: consumption_entry_def)
    then have "js_get item ''wNow'' = Inr (JNum (wNow_of item))"
      by (rule wNow_is_number_cases)
    with True e show ?thesis
      by (simp add: consumption_step_def js_add_nums)
  next
    case False
    with e assms(2) show ?thesis
      by (auto simp: consumption_step_def js_add_nums dadd_Zero_right)
  qed
qed

lemma net_step_entry:
  assumes "consumption_entry item" and "acc \<noteq> Zero True"
  shows "net_step P (JNum acc) item
         = Inr (JNum (if field_is ''type'' ''eim'' item
                         \<and> field_is ''measurementType'' ''net-consumption'' item
                      then dadd acc (wNow_of item) else acc))"
proof -
  have e: "eim_measurement ''net-consumption'' item
      = Inr (field_is ''type'' ''eim'' item \<and> field_is ''measurementType'' ''net-consumption'' item)"
    using assms(1) by (intro eim_measurement_entry) (simp_all add: consumption_entry_def)
  show ?thesis
  proof (cases "field_is ''type'' ''eim'' item
                \<and> field_is ''measurementType'' ''net-consumption'' item")
    case True
    with assms(1) have "wNow_is_number item"
      by (simp add: consumption_entry_def)
    then have "js_get item ''wNow'' = Inr (JNum (wNow_of item))"
      by (rule wNow_is_number_cases)
    with True e show ?thesis
      by (simp add: net_step_def js_add_nums)
  next
    case False
    with e assms(2) show ?thesis
      by (auto simp: net_step_def js_add_nums dadd_Zero_right)
  qed
qed

lemma reduce_power_entries:
  assumes "js_get body ''production'' = Inr (JArr ps)"
    and "js_get body ''consumption'' = Inr (JArr cs)"
    and "\<And>item. item \<in> set ps \<Longrightarrow> production_entry item"
    and "\<And>item. item \<in> set cs \<Longrightarrow> consumption_entry item"
  shows "reduce_power P body =
     Inr \<lparr> production = JNum (spec_production ps),
           consumption = JNum (spec_consumption cs),
           net = JNum (eim_net cs) \<rparr>"
proof -
  have z: "Zero False \<noteq> Zero True" by simp
  have p: "reduce_items (production_step P) ps (JNum (Zero False)) = Inr (JNum (spec_production ps))"
    unfolding spec_production_def double_sum_def
    by (rule reduce_items_filter [OF assms(3) production_step_entry z])
  have c: "reduce_items (consumption_step P) cs (JNum (Zero False))
      = Inr (JNum (spec_consumption cs))"
    unfolding spec_consumption_def double_sum_def
    by (rule reduce_items_filter [OF assms(4) consumption_step_entry z])
  have n: "reduce_items (net_step P) cs (JNum (Zero False)) = Inr (JNum (eim_net cs))"
    unfolding eim_net_def double_sum_def
    by (rule reduce_items_filter [OF assms(4) net_step_entry z])
  show ?thesis
    using p c n assms(1,2)
    by (simp add: reduce_power_def array_reduce_def)
qed

subsection \<open>Printing\<close>

lemma decimal_examples:
  "decimal 401 = ''401''" "decimal 302 = ''302''" "decimal 200 = ''200''" "decimal 0 = ''0''"
  by (simp_all add: decimal_def)

subsection \<open>Parsing a redirect with a code\<close>

lemma split_first_absent:
  assumes "c \<notin> set s"
  shows "split_first c s = (s, None)"
proof -
  have d: "dropWhile (\<lambda>x. x \<noteq> c) s = []"
    using assms by (auto simp: dropWhile_eq_Nil_conv)
  show ?thesis unfolding split_first_def d by simp
qed

lemma split_first_found:
  assumes "c \<notin> set a"
  shows "split_first c (a @ c # b) = (a, Some b)"
proof -
  have d: "dropWhile (\<lambda>x. x \<noteq> c) (a @ c # b) = c # b"
    using assms by (subst dropWhile_append2) auto
  have t: "takeWhile (\<lambda>x. x \<noteq> c) (a @ c # b) = a"
    using assms by (subst takeWhile_append2) auto
  show ?thesis unfolding split_first_def d t by simp
qed

lemma is_tab_or_newline_c0: "is_tab_or_newline c \<Longrightarrow> is_c0_or_space c"
  by (auto simp: is_tab_or_newline_def is_c0_or_space_def)

lemma scheme_char_visible: "is_scheme_char c \<Longrightarrow> visible c"
  by (auto simp: is_scheme_char_def is_alpha_def is_digit_def visible_def is_c0_or_space_def Let_def)

lemma colon_not_scheme_char: "\<not> is_scheme_char CHR '':''"
  by (simp add: is_scheme_char_def is_alpha_def is_digit_def)

lemma split_scheme_found:
  assumes "scheme_text sch"
  shows "split_scheme (sch @ CHR '':'' # rest) = Some (sch, rest)"
proof -
  from assms obtain c cs where sch: "sch = c # cs" and a: "is_alpha c"
    and all: "list_all is_scheme_char sch"
    by (auto simp: scheme_text_def split: list.splits)
  have d: "dropWhile is_scheme_char (sch @ CHR '':'' # rest) = CHR '':'' # rest"
    using all colon_not_scheme_char by (simp add: dropWhile_append3 list_all_iff)
  have t: "takeWhile is_scheme_char (sch @ CHR '':'' # rest) = sch"
    using all colon_not_scheme_char by (simp add: takeWhile_tail list_all_iff)
  show ?thesis
    unfolding split_scheme_def d t using sch a by simp
qed

lemma url_trim_visible:
  assumes "list_all visible s"
  shows "url_trim s = s"
proof -
  have f: "filter (\<lambda>c. \<not> is_tab_or_newline c) s = s"
    using assms by (auto simp: list_all_iff visible_def dest: is_tab_or_newline_c0 intro: filter_True)
  have d: "dropWhile is_c0_or_space s = s"
    using assms by (cases s) (auto simp: visible_def)
  have r: "dropWhile is_c0_or_space (rev s) = rev s"
    using assms by (cases "rev s") (auto simp: visible_def list_all_iff dest: arg_cong [where f = set])
  show ?thesis
    by (simp add: url_trim_def d r f)
qed

lemma split_all_single: "c \<notin> set s \<Longrightarrow> split_all c s = [s]"
  by (induction s) auto

lemma percent_decode_plain: "CHR ''%'' \<notin> set s \<Longrightarrow> percent_decode s = utf8_bytes s"
  by (induction s rule: percent_decode.induct) (auto simp: utf8_bytes_def)

lemma urlencoded_component_plain:
  assumes "CHR ''+'' \<notin> set s" "CHR ''%'' \<notin> set s"
  shows "urlencoded_component P s = utf8_decode P (utf8_bytes s)"
proof -
  have "map (\<lambda>c. if c = CHR ''+'' then CHR '' '' else c) s = s"
    using assms(1) by (induction s) auto
  then show ?thesis
    using assms(2) by (simp add: urlencoded_component_def percent_decode_plain)
qed

lemma urlencoded_parse_code:
  assumes "plain_value v"
  shows "urlencoded_parse P (''code='' @ v)
         = [(utf8_decode P (utf8_bytes ''code''), utf8_decode P (utf8_bytes v))]"
proof -
  from assms have amp: "CHR ''&'' \<notin> set (''code='' @ v)"
    and plus: "CHR ''+'' \<notin> set v" and pct: "CHR ''%'' \<notin> set v"
    by (auto simp: plain_value_def list_all_iff)
  have sf: "split_first CHR ''='' (''code='' @ v) = (''code'', Some v)"
    using split_first_found [of "CHR ''=''" "''code''" v] by simp
  show ?thesis
    using plus pct
    by (simp add: urlencoded_parse_def split_all_single [OF amp] sf urlencoded_component_plain
        del: append.simps)
qed

lemma URL_new_code:
  assumes "scheme_text sch" and "url_body_text body" and "plain_value v"
    and "URL_body_valid P sch body"
  shows "URL_new P (sch @ '':'' @ body @ ''?code='' @ v)
         = Inr \<lparr> searchParams = [(utf8_decode P (utf8_bytes ''code''), utf8_decode P (utf8_bytes v))] \<rparr>"
proof -
  let ?rest = "body @ ''?code='' @ v"
  have vis: "list_all visible (sch @ '':'' @ ?rest)"
    using assms(1,2,3)
    by (auto simp: scheme_text_def url_body_text_def plain_value_def list_all_iff
        visible_def is_c0_or_space_def
        dest: scheme_char_visible [unfolded visible_def is_c0_or_space_def]
        split: list.splits)
  have nohash: "CHR ''#'' \<notin> set ?rest"
    using assms(2,3) by (auto simp: url_body_text_def plain_value_def list_all_iff)
  have noq: "CHR ''?'' \<notin> set body"
    using assms(2) by (auto simp: url_body_text_def list_all_iff)
  have sq: "split_first CHR ''?'' ?rest = (body, Some (''code='' @ v))"
    using split_first_found [OF noq, of "''code='' @ v"] by simp
  have ss: "split_scheme (sch @ '':'' @ ?rest) = Some (sch, ?rest)"
    using split_scheme_found [OF assms(1), of ?rest] by simp
  show ?thesis
    unfolding URL_new_def url_trim_visible [OF vis] ss
    using assms(4)
    by (simp add: split_first_absent [OF nohash] sq urlencoded_parse_code [OF assms(3)]
        del: append.simps)
qed

subsection \<open>One request, one response\<close>

lemma get_code_response:
  assumes "login_request M code_challenge = Inr req"
    and "authHttp M req (world st) = (Inr resp, w)"
  shows "get_code M code_challenge st =
     (if status resp \<noteq> 302 then
        Inl (Error (''Unexpected HTTP status. Expected: 302, Found: '' @ decimal (status resp)))
      else
        (case URL_new (runtime M)
                (case headers resp ''location'' of None \<Rightarrow> ''undefined'' | Some location \<Rightarrow> location) of
           Inl e \<Rightarrow> Inl e
         | Inr u \<Rightarrow> Inr (searchParams_get u ''code'')),
      st\<lparr> world := w, trace := trace st @ [AuthRequest req] \<rparr>)"
  using assms by (simp add: get_code_def Let_def split: sum.splits)

lemma URL_new_TypeError: "URL_new P input = Inl e \<Longrightarrow> e = TypeError"
  by (auto simp: URL_new_def split: option.splits prod.splits if_splits)

lemma URL_new_example:
  assumes "URL_body_valid P ''https'' ''//envoy.local/auth/callback''"
    and "utf8_decode P (utf8_bytes ''code'') = ''code''"
    and "utf8_decode P (utf8_bytes ''ABC123'') = ''ABC123''"
  shows "URL_new P ''https://envoy.local/auth/callback?code=ABC123''
         = Inr \<lparr> searchParams = [(''code'', ''ABC123'')] \<rparr>"
  using assms
  by (simp add: URL_new_def url_trim_def split_scheme_def split_first_def is_c0_or_space_def
      is_tab_or_newline_def is_alpha_def is_scheme_char_def is_digit_def urlencoded_parse_def
      urlencoded_component_def utf8_bytes_def)

lemma get_jwt_response:
  assumes "jwt_request M code_verifier code = Inr req"
    and "envoyHttp M (common_headers st) req (world st) = (Inr resp, w)"
  shows "get_jwt M code_verifier code st =
     (js_get (data resp) ''access_token'',
      st\<lparr> world := w, trace := trace st @ [EnvoyRequest (common_headers st) req] \<rparr>)"
  using assms by (simp add: get_jwt_def)

lemma get_current_power_ok:
  assumes "envoyHttp M (common_headers st) power_request (world st) = (Inr resp, w)"
    and "status resp = 200"
  shows "get_current_power M st =
     (reduce_power (runtime M) (data resp),
      st\<lparr> world := w, trace := trace st @ [EnvoyRequest (common_headers st) power_request] \<rparr>)"
  using assms by (simp add: get_current_power_def)

subsection \<open>The two paths of authenticate\<close>

lemma set_authorization_trace: "trace (snd (set_authorization M jwt st)) = trace st"
  by (simp add: set_authorization_def split: sum.splits)

lemma set_authorization_text:
  "to_string (runtime M) jwt = Inr text \<Longrightarrow>
   set_authorization M jwt st =
     (Inr (), st\<lparr> common_headers := (common_headers st)(''Authorization'' \<mapsto> ''Bearer '' @ text) \<rparr>)"
  by (simp add: set_authorization_def)

lemma get_code_trace: "\<exists>evs. trace (snd (get_code M c st)) = trace st @ evs"
  by (auto simp: get_code_def Let_def split: sum.splits prod.splits)

lemma get_jwt_trace: "\<exists>evs. trace (snd (get_jwt M v c st)) = trace st @ evs"
  by (auto simp: get_jwt_def Let_def split: sum.splits prod.splits)

lemma get_current_power_trace:
  "trace (snd (get_current_power M st))
     = trace st @ [EnvoyRequest (common_headers st) power_request]"
  by (auto simp: get_current_power_def Let_def split: sum.splits prod.splits)

lemma authenticate_present:
  assumes "token_storage (opts M) = Some storage"
    and "load storage (world st) = (Inr jwt, w)"
    and "jwt \<noteq> JUndefined" and "jwt \<noteq> JNull"
  shows "authenticate M st = set_authorization M jwt (st\<lparr> world := w, trace := trace st @ [Load] \<rparr>)"
  using assms by (simp add: authenticate_def)

lemma authenticate_absent:
  assumes "token_storage (opts M) = Some storage"
    and "load storage (world st) = (Inr jwt, w)"
    and "jwt = JUndefined \<or> jwt = JNull"
    and "crypto_randomBytes M 32 w = (random, w2)"
  shows "authenticate M st =
     (let st2 = st\<lparr> world := w2, trace := trace st @ [Load, RandomBytes 32] \<rparr>;
          code_verifier = code_verifier_of random
      in case get_code M (generate_code_challenge (runtime M) code_verifier) st2 of
           (Inl e, st3) \<Rightarrow> (Inl e, st3)
         | (Inr code, st3) \<Rightarrow>
             (case get_jwt M code_verifier code st3 of
                (Inl e, st4) \<Rightarrow> (Inl e, st4)
              | (Inr jwt', st4) \<Rightarrow>
                  (case save storage jwt' (world st4) of
                     (r', w') \<Rightarrow>
                       (let st5 = st4\<lparr> world := w', trace := trace st4 @ [Save jwt'] \<rparr>
                        in case r' of
                             Inl e \<Rightarrow> (Inl e, st5)
                           | Inr _ \<Rightarrow> set_authorization M jwt' st5))))"
  using assms by (auto simp: authenticate_def generate_code_verifier_def Let_def)

lemma authenticate_absent_trace:
  assumes "token_storage (opts M) = Some storage"
    and "load storage (world st) = (Inr jwt, w)"
    and "jwt = JUndefined \<or> jwt = JNull"
  shows "\<exists>evs. trace (snd (authenticate M st)) = trace st @ [Load, RandomBytes 32] @ evs"
proof -
  obtain random w2 where r: "crypto_randomBytes M 32 w = (random, w2)"
    by (cases "crypto_randomBytes M 32 w")
  let ?st2 = "st\<lparr> world := w2, trace := trace st @ [Load, RandomBytes 32] \<rparr>"
  let ?v = "code_verifier_of random"
  let ?c = "generate_code_challenge (runtime M) ?v"
  obtain r3 st3 where g: "get_code M ?c ?st2 = (r3, st3)"
    by (cases "get_code M ?c ?st2")
  from get_code_trace [of M ?c ?st2] g
  obtain evs3 where t3: "trace st3 = trace st @ [Load, RandomBytes 32] @ evs3"
    by auto
  show ?thesis
  proof (cases r3)
    case (Inl e)
    with g t3 show ?thesis
      by (simp add: authenticate_absent [OF assms r] Let_def)
  next
    case (Inr code)
    obtain r4 st4 where j: "get_jwt M ?v code st3 = (r4, st4)"
      by (cases "get_jwt M ?v code st3")
    from get_jwt_trace [of M ?v code st3] j
    obtain evs4 where t4: "trace st4 = trace st3 @ evs4"
      by auto
    show ?thesis
    proof (cases r4)
      case (Inl e)
      with g Inr j t3 t4 show ?thesis
        by (simp add: authenticate_absent [OF assms r] Let_def)
    next
      case (Inr jwt')
      with g \<open>r3 = Inr code\<close> j t3 t4 show ?thesis
        by (auto simp: authenticate_absent [OF assms r] Let_def set_authorization_trace
            split: prod.splits sum.splits)
    qed
  qed
qed

lemma get_code_calls:
  "(\<exists>req. trace (snd (get_code M c st)) = trace st @ [AuthRequest req])
   \<or> (trace (snd (get_code M c st)) = trace st \<and> (\<exists>e. fst (get_code M c st) = Inl e))"
  by (auto simp: get_code_def Let_def split: sum.splits prod.splits)

lemma get_jwt_calls:
  "(\<exists>req. trace (snd (get_jwt M v c st)) = trace st @ [EnvoyRequest (common_headers st) req])
   \<or> (trace (snd (get_jwt M v c st)) = trace st \<and> (\<exists>e. fst (get_jwt M v c st) = Inl e))"
  by (auto simp: get_jwt_def Let_def split: sum.splits prod.splits)

lemma authenticate_call_order:
  assumes "token_storage (opts M) = Some storage"
    and "load storage (world st) = (Inr jwt, w)"
    and "jwt = JUndefined \<or> jwt = JNull"
  shows "\<exists>n. new_calls st (snd (authenticate M st)) = take n handshake_calls"
proof -
  obtain random w2 where r: "crypto_randomBytes M 32 w = (random, w2)"
    by (cases "crypto_randomBytes M 32 w")
  let ?st2 = "st\<lparr> world := w2, trace := trace st @ [Load, RandomBytes 32] \<rparr>"
  let ?v = "code_verifier_of random"
  let ?c = "generate_code_challenge (runtime M) ?v"
  note a = authenticate_absent [OF assms r]
  obtain r3 st3 where g: "get_code M ?c ?st2 = (r3, st3)"
    by (cases "get_code M ?c ?st2")
  show ?thesis
  proof (cases r3)
    case (Inl e)
    from get_code_calls [of M ?c ?st2] g
    have "new_calls st st3 = take 2 handshake_calls \<or> new_calls st st3 = take 3 handshake_calls"
      by (auto simp: new_calls_def handshake_calls_def)
    moreover have "snd (authenticate M st) = st3"
      using g Inl by (simp add: a Let_def)
    ultimately show ?thesis by auto
  next
    case (Inr code)
    from get_code_calls [of M ?c ?st2] g Inr
    obtain req1 where t3: "trace st3 = trace st @ [Load, RandomBytes 32, AuthRequest req1]"
      by auto
    obtain r4 st4 where j: "get_jwt M ?v code st3 = (r4, st4)"
      by (cases "get_jwt M ?v code st3")
    show ?thesis
    proof (cases r4)
      case (Inl e)
      from get_jwt_calls [of M ?v code st3] j t3
      have "new_calls st st4 = take 3 handshake_calls \<or> new_calls st st4 = take 4 handshake_calls"
        by (auto simp: new_calls_def handshake_calls_def)
      moreover have "snd (authenticate M st) = st4"
        using g \<open>r3 = Inr code\<close> j Inl by (simp add: a Let_def)
      ultimately show ?thesis by auto
    next
      case (Inr jwt')
      from get_jwt_calls [of M ?v code st3] j Inr t3
      obtain req2 where t4: "trace st4 = trace st @ [Load, RandomBytes 32, AuthRequest req1,
          EnvoyRequest (common_headers st3) req2]"
        by auto
      have "trace (snd (authenticate M st)) = trace st4 @ [Save jwt']"
        using g \<open>r3 = Inr code\<close> j Inr
        by (auto simp: a Let_def set_authorization_trace split: prod.splits sum.splits)
      with t4 have "new_calls st (snd (authenticate M st)) = take 5 handshake_calls"
        by (simp add: new_calls_def handshake_calls_def)
      then show ?thesis by blast
    qed
  qed
qed

lemma authenticate_handshake:
  assumes "token_storage (opts M) = Some storage"
    and "load storage (world st) = (Inr absent, w1)"
    and "absent = JUndefined \<or> absent = JNull"
    and "crypto_randomBytes M 32 w1 = (random, w2)"
    and "code_verifier = code_verifier_of random"
    and "code_challenge = generate_code_challenge (runtime M) code_verifier"
    and "login_request M code_challenge = Inr req1"
    and "authHttp M req1 w2 = (Inr resp1, w3)"
    and "status resp1 = 302"
    and "headers resp1 ''location'' = Some location"
    and "URL_new (runtime M) location = Inr u"
    and "code = searchParams_get u ''code''"
    and "jwt_request M code_verifier code = Inr req2"
    and "envoyHttp M (common_headers st) req2 w3 = (Inr resp2, w4)"
    and "js_get (data resp2) ''access_token'' = Inr jwt"
    and "save storage jwt w4 = (Inr (), w5)"
    and "to_string (runtime M) jwt = Inr text"
  shows "authenticate M st =
           (Inr (), st\<lparr> world := w5,
                         trace := trace st @ [Load, RandomBytes 32, AuthRequest req1,
                                              EnvoyRequest (common_headers st) req2, Save jwt],
                         common_headers :=
                           (common_headers st)(''Authorization'' \<mapsto> ''Bearer '' @ text) \<rparr>)
         \<and> js_get (req_data req1) ''codeChallenge'' = Inr (JStr code_challenge)
         \<and> js_get (req_data req2) ''code_verifier'' = Inr (JStr code_verifier)
         \<and> js_get (req_data req2) ''code'' = Inr code
         \<and> trace (snd (get_current_power M (snd (authenticate M st))))
             = trace (snd (authenticate M st))
               @ [EnvoyRequest ((common_headers st)(''Authorization'' \<mapsto> ''Bearer '' @ text))
                    power_request]"
proof -
  let ?st2 = "st\<lparr> world := w2, trace := trace st @ [Load, RandomBytes 32] \<rparr>"
  let ?st3 = "st\<lparr> world := w3, trace := trace st @ [Load, RandomBytes 32, AuthRequest req1] \<rparr>"
  let ?st4 = "st\<lparr> world := w4,
                   trace := trace st @ [Load, RandomBytes 32, AuthRequest req1,
                                        EnvoyRequest (common_headers st) req2] \<rparr>"
  let ?st5 = "st\<lparr> world := w5,
                   trace := trace st @ [Load, RandomBytes 32, AuthRequest req1,
                                        EnvoyRequest (common_headers st) req2, Save jwt] \<rparr>"
  have a2: "authHttp M req1 (world ?st2) = (Inr resp1, w3)"
    using assms(8) by simp
  have g: "get_code M code_challenge ?st2 = (Inr code, ?st3)"
    using assms(9,10,11,12)
    by (simp add: get_code_response [OF assms(7) a2])
  have e3: "envoyHttp M (common_headers ?st3) req2 (world ?st3) = (Inr resp2, w4)"
    using assms(14) by simp
  have j: "get_jwt M code_verifier code ?st3 = (Inr jwt, ?st4)"
    using assms(15)
    by (simp add: get_jwt_response [OF assms(13) e3])
  have s: "save storage jwt (world ?st4) = (Inr (), w5)"
    using assms(16) by simp
  have auth: "authenticate M st =
           (Inr (), st\<lparr> world := w5,
                         trace := trace st @ [Load, RandomBytes 32, AuthRequest req1,
                                              EnvoyRequest (common_headers st) req2, Save jwt],
                         common_headers :=
                           (common_headers st)(''Authorization'' \<mapsto> ''Bearer '' @ text) \<rparr>)"
    using g j s assms(5,6)
    by (simp add: authenticate_absent [OF assms(1,2,3,4)] Let_def
        set_authorization_text [OF assms(17)])
  have c1: "js_get (req_data req1) ''codeChallenge'' = Inr (JStr code_challenge)"
    using assms(7) by (auto simp: login_request_def split: sum.splits)
  have c2: "js_get (req_data req2) ''code_verifier'' = Inr (JStr code_verifier)"
    and c3: "js_get (req_data req2) ''code'' = Inr code"
    using assms(13) by (auto simp: jwt_request_def split: sum.splits)
  show ?thesis
    using c1 c2 c3 by (simp add: auth get_current_power_trace)
qed

subsection \<open>The mock configuration\<close>

lemma mock_login_request:
  "login_request (mock_main r1 r2 r3) c =
     Inr \<lparr> req_method = ''post'',
           req_url = ''/login'',
           req_data = JObj
             [(''username'', JStr ''owner@example.org''),
              (''password'', JStr ''secret''),
              (''codeChallenge'', JStr c),
              (''redirectUri'', JStr ''undefined/auth/callback''),
              (''client'', JStr ''envoy-ui''),
              (''clientId'', JStr ''envoy-ui-client''),
              (''authFlow'', JStr ''oauth''),
              (''serialNum'', JStr ''122000000001''),
              (''grantType'', JStr ''authorize''),
              (''state'', JStr ''''),
              (''invalidSerialNum'', JStr '''')],
           req_headers =
             [(''Content-Type'', ''application/x-www-form-urlencoded''),
              (''Accept'', ''application/json'')],
           req_maxRedirects = Some 0 \<rparr>"
  by (simp add: login_request_def mock_main_def)

lemma mock_authHttp: "authHttp (mock_main r1 r2 r3) req w = (Inr r1, w)"
  by (simp add: mock_main_def)

lemma mock_runtime: "runtime (mock_main r1 r2 r3) = mock_platform"
  by (simp add: mock_main_def)

lemma unat_of_char: "unat (of_char c :: byte) = of_char c"
proof -
  have "unat (of_nat (of_char c) :: byte) = of_char c mod 256"
    by (simp only: unat_of_nat) simp
  then show ?thesis
    by (simp only: of_nat_of_char of_char_mod_256)
qed

lemma char_of_byte: "char_of (unat (of_char c :: byte)) = c"
  by (simp add: unat_of_char)

lemma mock_utf8_decode: "utf8_decode mock_platform (utf8_bytes s) = s"
  by (simp add: mock_platform_def utf8_bytes_def comp_def char_of_byte)

lemma URL_new_no_code:
  "URL_new mock_platform ''https://envoy.local/auth/callback''
         = Inr \<lparr> searchParams = [] \<rparr>"
  by (simp add: URL_new_def url_trim_def split_scheme_def split_first_def is_c0_or_space_def
      is_tab_or_newline_def is_alpha_def is_scheme_char_def is_digit_def urlencoded_parse_def
      urlencoded_component_def mock_platform_def)

lemma mock_token_storage: "token_storage (opts (mock_main r1 r2 r3)) = Some memory_storage"
  by (simp add: mock_main_def)

lemma memory_storage_load: "load memory_storage w = (Inr w, w)"
  by (simp add: memory_storage_def)

lemma memory_storage_save: "save memory_storage token w = (Inr (), token)"
  by (simp add: memory_storage_def)

lemma mock_randomBytes: "crypto_randomBytes (mock_main r1 r2 r3) n w = (replicate n 0, w)"
  by (simp add: mock_main_def)

lemma mock_jwt_request:
  "jwt_request (mock_main r1 r2 r3) v c =
     Inr \<lparr> req_method = ''post'',
           req_url = ''/auth/get_jwt'',
           req_data = JObj
             [(''client_id'', JStr ''envoy-ui-1''),
              (''code'', c),
              (''code_verifier'', JStr v),
              (''grant_type'', JStr ''authorization_code''),
              (''redirect_uri'', JStr ''undefined/auth/callback'')],
           req_headers = [],
           req_maxRedirects = Some 0 \<rparr>"
  by (simp add: jwt_request_def mock_main_def)

lemma mock_envoyHttp_jwt:
  "req_url req = ''/auth/get_jwt'' \<Longrightarrow> envoyHttp (mock_main r1 r2 r3) hs req w = (Inr r2, w)"
  by (simp add: mock_main_def)

subsection \<open>The end-to-end scenario\<close>

text \<open>The scenario of section 8 of the specification on the mock configuration: an
  empty storage, a login answered by a redirect with a code, an exchange answered with
  the token \<open>tok-1\<close>; the token is saved and the metrics request carries it.\<close>

lemma mock_envoyHttp_power:
  "envoyHttp (mock_main r1 r2 r3) hs power_request w = (Inr r3, w)"
  by (simp add: mock_main_def power_request_def)

lemma main_end_to_end:
  "\<exists>req1 req2.
     main
       (mock_main (redirect_response ''https://envoy.local/auth/callback?code=ABC123'')
          (json_response 200 (JObj [(''access_token'', JStr ''tok-1'')]))
          (json_response 200 example_body))
       (initial_state JUndefined)
     = (Inr \<lparr> production = JNum (double_of_int 500), consumption = JNum (double_of_int 200),
              net = JNum (double_of_int (- 50)) \<rparr>,
        \<lparr> world = JStr ''tok-1'',
          trace = [Load, RandomBytes 32, AuthRequest req1, EnvoyRequest Map.empty req2,
                   Save (JStr ''tok-1''),
                   EnvoyRequest [''Authorization'' \<mapsto> ''Bearer tok-1''] power_request],
          common_headers = [''Authorization'' \<mapsto> ''Bearer tok-1''] \<rparr>)"
proof -
  let ?location = "''https://envoy.local/auth/callback?code=ABC123''"
  let ?r1 = "redirect_response ?location"
  let ?r2 = "json_response 200 (JObj [(''access_token'', JStr ''tok-1'')])"
  let ?r3 = "json_response 200 example_body"
  let ?M = "mock_main ?r1 ?r2 ?r3"
  let ?st = "initial_state JUndefined :: jsval state"
  let ?u = "\<lparr> searchParams = [(''code'', ''ABC123'')] \<rparr>"
  have l: "load memory_storage (world ?st) = (Inr JUndefined, JUndefined)"
    by (simp add: memory_storage_load initial_state_def)
  have s: "status ?r1 = 302" and h: "headers ?r1 ''location'' = Some ?location"
    by (simp_all add: redirect_response_def)
  have u: "URL_new (runtime ?M) ?location = Inr ?u"
    by (rule URL_new_example) (simp_all add: mock_runtime mock_utf8_decode, simp add: mock_platform_def)
  have e: "envoyHttp ?M (common_headers ?st) req w = (Inr ?r2, w)"
    if "req_url req = ''/auth/get_jwt''" for req w
    using that by (rule mock_envoyHttp_jwt)
  have a: "js_get (data ?r2) ''access_token'' = Inr (JStr ''tok-1'')"
    by (simp add: json_response_def)
  have t: "to_string (runtime ?M) (JStr ''tok-1'') = Inr ''tok-1''"
    by simp
  have "JUndefined = JUndefined \<or> JUndefined = JNull" by simp
  from authenticate_handshake [OF mock_token_storage l this mock_randomBytes refl refl
      mock_login_request mock_authHttp s h u refl mock_jwt_request e a memory_storage_save t]
  obtain req1 req2 where auth: "authenticate ?M ?st =
      (Inr (), \<lparr> world = JStr ''tok-1'',
                 trace = [Load, RandomBytes 32, AuthRequest req1, EnvoyRequest Map.empty req2,
                          Save (JStr ''tok-1'')],
                 common_headers = [''Authorization'' \<mapsto> ''Bearer tok-1''] \<rparr>)"
    by (simp add: initial_state_def)
  let ?st' = "\<lparr> world = JStr ''tok-1'',
                 trace = [Load, RandomBytes 32, AuthRequest req1, EnvoyRequest Map.empty req2,
                          Save (JStr ''tok-1'')],
                 common_headers = [''Authorization'' \<mapsto> ''Bearer tok-1''] \<rparr>"
  have p: "envoyHttp ?M (common_headers ?st') power_request (world ?st') = (Inr ?r3, JStr ''tok-1'')"
    by (simp add: mock_envoyHttp_power)
  have ok: "status ?r3 = 200" by (simp add: json_response_def)
  have body: "reduce_power (runtime ?M) (data ?r3)
      = Inr \<lparr> production = JNum (double_of_int 500), consumption = JNum (double_of_int 200),
              net = JNum (double_of_int (- 50)) \<rparr>"
    by (simp add: json_response_def example_body_def reduce_power_def array_reduce_def
        production_step_def consumption_step_def net_step_def eim_measurement_def js_add_nums
        double_of_int_examples)
  show ?thesis
    using get_current_power_ok [OF p ok] body
    by (simp add: main_def auth)
qed

section \<open>PKCE derivation\<close>

text \<open>
  Claim C3. For every verifier string, \<open>generate_code_challenge\<close> is a function of the
  verifier and equals the specification's Base64url of the SHA-256 digest of the bytes
  of the verifier string as it stands (\<open>update(code_verifier)\<close> hashes the string
  itself, the method S256 of RFC 7636); the challenge contains no \<open>+\<close>, \<open>/\<close> or
  \<open>=\<close>. A generated verifier is the specification's Base64url of the bytes drawn by
  \<open>crypto.randomBytes(32)\<close>, contains none of the three characters either, and one
  call draws 32 bytes once.
\<close>

theorem pkce_derivation:
  "generate_code_challenge P verifier = spec_base64url (sha256 P (utf8_bytes verifier))
   \<and> CHR ''+'' \<notin> set (generate_code_challenge P verifier)
   \<and> CHR ''/'' \<notin> set (generate_code_challenge P verifier)
   \<and> CHR ''='' \<notin> set (generate_code_challenge P verifier)
   \<and> fst (generate_code_verifier M st) = spec_base64url (fst (crypto_randomBytes M 32 (world st)))
   \<and> CHR ''+'' \<notin> set (fst (generate_code_verifier M st))
   \<and> CHR ''/'' \<notin> set (fst (generate_code_verifier M st))
   \<and> CHR ''='' \<notin> set (fst (generate_code_verifier M st))
   \<and> trace (snd (generate_code_verifier M st)) = trace st @ [RandomBytes 32]
   \<and> length (fst (generate_code_verifier M st))
       = (4 * length (fst (crypto_randomBytes M 32 (world st))) + 2) div 3"
proof -
  have challenge: "generate_code_challenge P verifier
      = base64_encode base64url_alphabet False (sha256 P (utf8_bytes verifier))"
    by (simp add: generate_code_challenge_def Buffer_toString_base64url_def)
  obtain random w where r: "crypto_randomBytes M 32 (world st) = (random, w)"
    by (cases "crypto_randomBytes M 32 (world st)")
  have verifier: "fst (generate_code_verifier M st) = base64_encode base64url_alphabet False random"
    using r code_verifier_of_eq [of random]
    by (simp add: generate_code_verifier_def Buffer_toString_base64url_def)
  have tr: "trace (snd (generate_code_verifier M st)) = trace st @ [RandomBytes 32]"
    using r by (simp add: generate_code_verifier_def)
  show ?thesis
    unfolding challenge verifier
    using r tr
    by (simp add: spec_base64url_eq chars_of_base64url length_base64_encode)
qed

section \<open>Token storage\<close>

text \<open>
  Claim C9. \<open>FileTokenStorage.load\<close> on a path that names nothing returns
  \<open>undefined\<close> as a normal result, not an error; and after a \<open>save\<close> that succeeded,
  \<open>load\<close> returns the saved token.
\<close>

theorem FileTokenStorage_absence:
  "(files path = None \<longrightarrow> FileTokenStorage_load path files = (Inr JUndefined, files))
   \<and> (FileTokenStorage_save path token files = (Inr (), files')
        \<longrightarrow> FileTokenStorage_load path files' = (Inr (JStr token), files'))"
  by (auto simp: FileTokenStorage_load_def FileTokenStorage_save_def fs_access_def
        fs_readFile_def fs_writeFile_def split: option.splits fs_node.splits)

theorem FileTokenStorage_absence_witness:
  "FileTokenStorage_load ''./token.dat'' Map.empty = (Inr JUndefined, Map.empty)
   \<and> FileTokenStorage_save ''./token.dat'' ''tok-1'' Map.empty
       = (Inr (), [''./token.dat'' \<mapsto> File ''tok-1''])
   \<and> FileTokenStorage_load ''./token.dat'' [''./token.dat'' \<mapsto> File ''tok-1'']
       = (Inr (JStr ''tok-1''), [''./token.dat'' \<mapsto> File ''tok-1''])"
proof -
  have s: "FileTokenStorage_save ''./token.dat'' ''tok-1'' Map.empty
       = (Inr (), [''./token.dat'' \<mapsto> File ''tok-1''])"
    by (simp add: FileTokenStorage_save_def fs_writeFile_def)
  have e: "(Map.empty :: fs) ''./token.dat'' = None" by simp
  from FileTokenStorage_absence [of Map.empty "''./token.dat''" "''tok-1''" "[''./token.dat'' \<mapsto> File ''tok-1'']"]
    s e show ?thesis by blast
qed

section \<open>Metrics\<close>

text \<open>
  Claim C7. When the device answers the metrics request with a status other than 200,
  \<open>get_current_power\<close> throws an error whose message carries the status and the
  stringified body; the request was sent once, and no reading is produced.
\<close>

theorem get_current_power_failure:
  assumes "envoyHttp M (common_headers st) power_request (world st) = (Inr resp, w)"
    and "status resp \<noteq> 200"
  shows "get_current_power M st =
     (Inl (Error (''Error while fetching production data (HTTP status: ''
                   @ decimal (status resp) @ '')'' @ [CHR 0x0A]
                   @ (case JSON_stringify (runtime M) (data resp) of
                        None \<Rightarrow> ''undefined'' | Some text \<Rightarrow> text))),
      st\<lparr> world := w, trace := trace st @ [EnvoyRequest (common_headers st) power_request] \<rparr>)"
  using assms by (simp add: get_current_power_def)

theorem get_current_power_failure_witness:
  "get_current_power
     (mock_main (redirect_response []) (json_response 200 JNull)
        (json_response 401 (JObj [(''message'', JStr ''unauthorized'')])))
     (initial_state JUndefined)
   = (Inl (Error (''Error while fetching production data (HTTP status: 401)'' @ [CHR 0x0A] @ ''{}'')),
      \<lparr> world = JUndefined, trace = [EnvoyRequest Map.empty power_request],
        common_headers = Map.empty \<rparr>)"
proof -
  let ?M = "mock_main (redirect_response []) (json_response 200 JNull)
        (json_response 401 (JObj [(''message'', JStr ''unauthorized'')]))"
  let ?resp = "json_response 401 (JObj [(''message'', JStr ''unauthorized'')])"
  have a: "envoyHttp ?M (common_headers (initial_state JUndefined)) power_request
             (world (initial_state JUndefined)) = (Inr ?resp, JUndefined)"
    by (simp add: mock_main_def power_request_def initial_state_def)
  have b: "status ?resp \<noteq> 200" by (simp add: json_response_def)
  show ?thesis
    using get_current_power_failure [OF a b]
    by (simp add: json_response_def initial_state_def mock_main_def mock_platform_def decimal_examples)
qed

text \<open>
  Claim C6, as the specification states it, fails. It sums the net value over every
  consumption entry that measures \<open>net-consumption\<close>, whereas the code also requires
  the type \<open>eim\<close>: an entry of another type that measures \<open>net-consumption\<close> with
  7 W gives the net value 0, not 7. Nor does every body of a 200 response give sums: a
  body without the two arrays makes the reduction throw, so does an entry that is
  \<open>null\<close>, and an entry of type \<open>eim\<close> without \<open>wNow\<close> makes the production
  \<open>NaN\<close>.
\<close>

theorem get_current_power_net_counterexample:
  "fst (get_current_power
          (mock_main (redirect_response []) (json_response 200 JNull)
             (json_response 200 net_only_body))
          (initial_state JUndefined))
     = Inr \<lparr> production = JNum (Zero False), consumption = JNum (Zero False),
             net = JNum (Zero False) \<rparr>
   \<and> spec_net [JObj [(''type'', JStr ''other''), (''measurementType'', JStr ''net-consumption''),
                     (''wNow'', JNum (double_of_int 7))]] = Finite False 7 0
   \<and> fst (get_current_power
          (mock_main (redirect_response []) (json_response 200 JNull)
             (json_response 200 (JObj [])))
          (initial_state JUndefined))
     = Inl TypeError
   \<and> fst (get_current_power
          (mock_main (redirect_response []) (json_response 200 JNull)
             (json_response 200 null_entry_body))
          (initial_state JUndefined))
     = Inl TypeError
   \<and> fst (get_current_power
          (mock_main (redirect_response []) (json_response 200 JNull)
             (json_response 200 no_wNow_body))
          (initial_state JUndefined))
     = Inr \<lparr> production = JNum NaN, consumption = JNum (Zero False),
             net = JNum (Zero False) \<rparr>"
  by (simp add: get_current_power_def mock_main_def json_response_def initial_state_def
      power_request_def net_only_body_def no_wNow_body_def null_entry_body_def
      reduce_power_def array_reduce_def
      production_step_def net_step_def consumption_step_def eim_measurement_def js_add_def
      is_stringish_def spec_net_def double_sum_def field_is_def wNow_of_def
      double_of_int_examples)

text \<open>
  Claim C6, amended. For every response of status 200 whose body holds \<open>production\<close>
  and \<open>consumption\<close> arrays, with no entry \<open>null\<close> or \<open>undefined\<close> and a numeric
  \<open>wNow\<close> in every entry that passes a filter, \<open>get_current_power\<close> returns:
  production, the sum of \<open>wNow\<close> over the production entries of type \<open>eim\<close>;
  consumption, the sum over the consumption entries of type \<open>eim\<close> measuring
  \<open>total-consumption\<close>; net, the sum over the consumption entries of type \<open>eim\<close>
  measuring \<open>net-consumption\<close>. A sum is taken in doubles, from zero, in the order of
  the array, so 0.1 and 0.2 give 0.30000000000000004. Entries that pass no filter add
  nothing, whatever else they hold, and empty arrays give three zeros.
\<close>

theorem get_current_power_reduction:
  assumes "envoyHttp M (common_headers st) power_request (world st) = (Inr resp, w)"
    and "status resp = 200"
    and "js_get (data resp) ''production'' = Inr (JArr ps)"
    and "js_get (data resp) ''consumption'' = Inr (JArr cs)"
    and "list_all production_entry ps" and "list_all consumption_entry cs"
  shows "fst (get_current_power M st) =
     Inr \<lparr> production = JNum (spec_production ps),
           consumption = JNum (spec_consumption cs),
           net = JNum (eim_net cs) \<rparr>"
proof -
  have "reduce_power (runtime M) (data resp) =
     Inr \<lparr> production = JNum (spec_production ps),
           consumption = JNum (spec_consumption cs),
           net = JNum (eim_net cs) \<rparr>"
    using assms(5,6)
    by (intro reduce_power_entries [OF assms(3,4)]) (simp_all add: list_all_iff)
  then show ?thesis
    by (simp add: get_current_power_ok [OF assms(1,2)])
qed

theorem get_current_power_reduction_witness:
  "fst (get_current_power
          (mock_main (redirect_response []) (json_response 200 JNull)
             (json_response 200 example_body))
          (initial_state JUndefined))
     = Inr \<lparr> production = JNum (double_of_int 500), consumption = JNum (double_of_int 200),
             net = JNum (double_of_int (- 50)) \<rparr>
   \<and> fst (get_current_power
          (mock_main (redirect_response []) (json_response 200 JNull)
             (json_response 200 empty_body))
          (initial_state JUndefined))
     = Inr \<lparr> production = JNum (Zero False), consumption = JNum (Zero False),
             net = JNum (Zero False) \<rparr>
   \<and> fst (get_current_power
          (mock_main (redirect_response []) (json_response 200 JNull)
             (json_response 200 other_entries_body))
          (initial_state JUndefined))
     = Inr \<lparr> production = JNum (Zero False), consumption = JNum (Zero False),
             net = JNum (Zero False) \<rparr>
   \<and> fst (get_current_power
          (mock_main (redirect_response []) (json_response 200 JNull)
             (json_response 200 fraction_body))
          (initial_state JUndefined))
     = Inr \<lparr> production = JNum (Finite False 1351079888211149 (- 52)),
             consumption = JNum (Zero False), net = JNum (Zero False) \<rparr>"
proof -
  let ?st = "initial_state JUndefined :: jsval state"
  let ?M = "\<lambda>body. mock_main (redirect_response []) (json_response 200 JNull) (json_response 200 body)"
  let ?ps = "[JObj [(''type'', JStr ''eim''), (''wNow'', JNum (double_of_int 500))],
              JObj [(''type'', JStr ''other''), (''wNow'', JNum (double_of_int 999))]]"
  let ?cs = "[JObj [(''type'', JStr ''eim''), (''measurementType'', JStr ''total-consumption''),
                (''wNow'', JNum (double_of_int 200))],
              JObj [(''type'', JStr ''eim''), (''measurementType'', JStr ''net-consumption''),
                (''wNow'', JNum (double_of_int (- 50)))]]"
  let ?ops = "[JObj [(''type'', JStr ''inverters'')], JNum (double_of_int 3)]"
  let ?ocs = "[JObj [(''measurementType'', JStr ''net-consumption'')]]"
  let ?fps = "[JObj [(''type'', JStr ''eim''), (''wNow'', JNum (Finite False 3602879701896397 (- 55)))],
               JObj [(''type'', JStr ''eim''), (''wNow'', JNum (Finite False 3602879701896397 (- 54)))]]"
  have r: "envoyHttp (?M body) (common_headers ?st) power_request (world ?st)
             = (Inr (json_response 200 body), JUndefined)" for body
    by (simp add: mock_main_def power_request_def initial_state_def)
  have s: "status (json_response 200 body) = 200" for body
    by (simp add: json_response_def)
  have p1: "js_get (data (json_response 200 example_body)) ''production'' = Inr (JArr ?ps)"
    and c1: "js_get (data (json_response 200 example_body)) ''consumption'' = Inr (JArr ?cs)"
    by (simp_all add: json_response_def example_body_def)
  have p2: "js_get (data (json_response 200 empty_body)) ''production'' = Inr (JArr [])"
    and c2: "js_get (data (json_response 200 empty_body)) ''consumption'' = Inr (JArr [])"
    by (simp_all add: json_response_def empty_body_def)
  have p3: "js_get (data (json_response 200 other_entries_body)) ''production'' = Inr (JArr ?ops)"
    and c3: "js_get (data (json_response 200 other_entries_body)) ''consumption'' = Inr (JArr ?ocs)"
    by (simp_all add: json_response_def other_entries_body_def)
  have p4: "js_get (data (json_response 200 fraction_body)) ''production'' = Inr (JArr ?fps)"
    and c4: "js_get (data (json_response 200 fraction_body)) ''consumption'' = Inr (JArr [])"
    by (simp_all add: json_response_def fraction_body_def)
  have ok: "list_all production_entry ?ps" "list_all consumption_entry ?cs"
    "list_all production_entry []" "list_all consumption_entry []"
    "list_all production_entry ?ops" "list_all consumption_entry ?ocs"
    "list_all production_entry ?fps"
    by (simp_all add: production_entry_def consumption_entry_def wNow_is_number_def field_is_def)
  have sums1: "spec_production ?ps = double_of_int 500"
    "spec_consumption ?cs = double_of_int 200" "eim_net ?cs = double_of_int (- 50)"
    by (simp_all add: spec_production_def spec_consumption_def eim_net_def double_sum_def
        field_is_def wNow_of_def double_of_int_examples)
  have sums2: "spec_production [] = Zero False" "spec_consumption [] = Zero False"
    "eim_net [] = Zero False"
    by (simp_all add: spec_production_def spec_consumption_def eim_net_def double_sum_def)
  have sums3: "spec_production ?ops = Zero False" "spec_consumption ?ocs = Zero False"
    "eim_net ?ocs = Zero False"
    by (simp_all add: spec_production_def spec_consumption_def eim_net_def double_sum_def
        field_is_def)
  have sums4: "spec_production ?fps = Finite False 1351079888211149 (- 52)"
    by (simp add: spec_production_def double_sum_def field_is_def wNow_of_def
        dadd_Zero_Finite dadd_examples(1) del: dadd.simps)
  show ?thesis
    using get_current_power_reduction [OF r s p1 c1 ok(1,2)]
      get_current_power_reduction [OF r s p2 c2 ok(3,4)]
      get_current_power_reduction [OF r s p3 c3 ok(5,6)]
      get_current_power_reduction [OF r s p4 c4 ok(7,4)]
    unfolding sums1 sums2 sums3 sums4
    by simp
qed

section \<open>Token exchange\<close>

text \<open>
  Claim C8, as the specification states it, fails on a response whose parsed body is
  \<open>null\<close>: reading \<open>access_token\<close> from it throws a \<open>TypeError\<close>.
\<close>

theorem get_jwt_null_body_counterexample:
  "fst (get_jwt (mock_main (redirect_response []) (json_response 200 JNull) (json_response 200 JNull))
          ''verifier'' (JStr ''ABC123'') (initial_state JUndefined))
   = Inl TypeError"
  by (simp add: get_jwt_def jwt_request_def mock_main_def mock_platform_def json_response_def
      initial_state_def)

text \<open>
  Claim C8, amended. \<open>get_jwt\<close> does not look at the status: for every response
  whose parsed body is neither \<open>null\<close> nor \<open>undefined\<close> it returns the
  \<open>access_token\<close> property of the body, which is \<open>undefined\<close>, and not an error,
  when the body lacks the field. The request is sent once.
\<close>

theorem get_jwt_pass_through:
  assumes "jwt_request M code_verifier code = Inr req"
    and "envoyHttp M (common_headers st) req (world st) = (Inr resp, w)"
    and "data resp \<noteq> JNull" and "data resp \<noteq> JUndefined"
  shows "fst (get_jwt M code_verifier code st) =
           Inr (case data resp of
                  JObj props \<Rightarrow> (case map_of props ''access_token'' of
                                   Some token \<Rightarrow> token
                                 | None \<Rightarrow> JUndefined)
                | _ \<Rightarrow> JUndefined)
         \<and> trace (snd (get_jwt M code_verifier code st))
             = trace st @ [EnvoyRequest (common_headers st) req]"
  using assms(3,4)
  by (cases "data resp") (simp_all add: get_jwt_response [OF assms(1,2)])

theorem get_jwt_pass_through_witness:
  "fst (get_jwt (mock_main (redirect_response [])
                   (json_response 500 (JObj [(''message'', JStr ''invalid code'')]))
                   (json_response 200 JNull))
          ''verifier'' (JStr ''ABC123'') (initial_state JUndefined)) = Inr JUndefined
   \<and> fst (get_jwt (mock_main (redirect_response [])
                   (json_response 200 (JObj [(''access_token'', JStr ''tok-1'')]))
                   (json_response 200 JNull))
          ''verifier'' (JStr ''ABC123'') (initial_state JUndefined)) = Inr (JStr ''tok-1'')"
proof -
  let ?st = "initial_state JUndefined :: jsval state"
  let ?M1 = "mock_main (redirect_response [])
                   (json_response 500 (JObj [(''message'', JStr ''invalid code'')]))
                   (json_response 200 JNull)"
  let ?M2 = "mock_main (redirect_response [])
                   (json_response 200 (JObj [(''access_token'', JStr ''tok-1'')]))
                   (json_response 200 JNull)"
  obtain req where req1: "jwt_request ?M1 ''verifier'' (JStr ''ABC123'') = Inr req"
    and req2: "jwt_request ?M2 ''verifier'' (JStr ''ABC123'') = Inr req"
    and url: "req_url req = ''/auth/get_jwt''"
    by (simp add: jwt_request_def mock_main_def)
  have r1: "envoyHttp ?M1 (common_headers ?st) req (world ?st)
      = (Inr (json_response 500 (JObj [(''message'', JStr ''invalid code'')])), JUndefined)"
    using url by (simp add: mock_main_def initial_state_def)
  have r2: "envoyHttp ?M2 (common_headers ?st) req (world ?st)
      = (Inr (json_response 200 (JObj [(''access_token'', JStr ''tok-1'')])), JUndefined)"
    using url by (simp add: mock_main_def initial_state_def)
  show ?thesis
    using get_jwt_pass_through [OF req1 r1] get_jwt_pass_through [OF req2 r2]
    by (simp add: json_response_def)
qed

section \<open>Authorization code\<close>

text \<open>
  Claim C5. When the login request is answered with status 302 and a \<open>Location\<close>
  header that parses as a URL with a \<open>code\<close> query parameter, \<open>get_code\<close> returns
  the value of that parameter. In particular, for a location made of a scheme, an
  authority and path, and the query \<open>code=\<close> followed by a plain text, it returns
  that text; for the location \<open>https://envoy.local/auth/callback?code=ABC123\<close> it
  returns \<open>ABC123\<close>.
\<close>

theorem get_code_success:
  assumes "login_request M code_challenge = Inr req"
    and "authHttp M req (world st) = (Inr resp, w)"
    and "status resp = 302"
    and "headers resp ''location'' = Some location"
  shows "(URL_new (runtime M) location = Inr u \<longrightarrow> map_of (searchParams u) ''code'' = Some v
            \<longrightarrow> fst (get_code M code_challenge st) = Inr (JStr v))
         \<and> (location = sch @ '':'' @ body @ ''?code='' @ text
            \<longrightarrow> scheme_text sch \<longrightarrow> url_body_text body \<longrightarrow> plain_value text
            \<longrightarrow> URL_body_valid (runtime M) sch body
            \<longrightarrow> utf8_decode (runtime M) (utf8_bytes ''code'') = ''code''
            \<longrightarrow> utf8_decode (runtime M) (utf8_bytes text) = text
            \<longrightarrow> fst (get_code M code_challenge st) = Inr (JStr text))
         \<and> (location = ''https://envoy.local/auth/callback?code=ABC123''
            \<longrightarrow> URL_body_valid (runtime M) ''https'' ''//envoy.local/auth/callback''
            \<longrightarrow> utf8_decode (runtime M) (utf8_bytes ''code'') = ''code''
            \<longrightarrow> utf8_decode (runtime M) (utf8_bytes ''ABC123'') = ''ABC123''
            \<longrightarrow> fst (get_code M code_challenge st) = Inr (JStr ''ABC123''))"
proof -
  note r = get_code_response [OF assms(1,2)]
  have general: "fst (get_code M code_challenge st) = Inr (JStr v)"
    if "URL_new (runtime M) location = Inr u" "map_of (searchParams u) ''code'' = Some v" for u v
    using that assms(3,4) by (simp add: r searchParams_get_def)
  have shape: "fst (get_code M code_challenge st) = Inr (JStr text)"
    if "location = sch @ '':'' @ body @ ''?code='' @ text" "scheme_text sch" "url_body_text body"
      "plain_value text" "URL_body_valid (runtime M) sch body"
      "utf8_decode (runtime M) (utf8_bytes ''code'') = ''code''"
      "utf8_decode (runtime M) (utf8_bytes text) = text"
  proof -
    have "URL_new (runtime M) location = Inr \<lparr> searchParams = [(''code'', text)] \<rparr>"
      using URL_new_code [OF that(2,3,4,5)] that(1,6,7) by simp
    then show ?thesis by (rule general) simp
  qed
  have example: "fst (get_code M code_challenge st) = Inr (JStr ''ABC123'')"
    if "location = ''https://envoy.local/auth/callback?code=ABC123''"
      "URL_body_valid (runtime M) ''https'' ''//envoy.local/auth/callback''"
      "utf8_decode (runtime M) (utf8_bytes ''code'') = ''code''"
      "utf8_decode (runtime M) (utf8_bytes ''ABC123'') = ''ABC123''"
  proof -
    have "URL_new (runtime M) location = Inr \<lparr> searchParams = [(''code'', ''ABC123'')] \<rparr>"
      unfolding that(1) using that(2,3,4) by (rule URL_new_example)
    then show ?thesis by (rule general) simp
  qed
  from general shape example show ?thesis by blast
qed

theorem get_code_success_witness:
  "fst (get_code
          (mock_main (redirect_response ''https://envoy.local/auth/callback?code=ABC123'')
             (json_response 200 JNull) (json_response 200 JNull))
          ''challenge'' (initial_state JUndefined))
   = Inr (JStr ''ABC123'')"
proof -
  let ?r = "redirect_response ''https://envoy.local/auth/callback?code=ABC123''"
  let ?M = "mock_main ?r (json_response 200 JNull) (json_response 200 JNull)"
  have s: "status ?r = 302"
    and l: "headers ?r ''location'' = Some ''https://envoy.local/auth/callback?code=ABC123''"
    by (simp_all add: redirect_response_def)
  have v: "URL_body_valid (runtime ?M) ''https'' ''//envoy.local/auth/callback''"
    by (simp add: mock_runtime mock_platform_def)
  show ?thesis
    using get_code_success [OF mock_login_request mock_authHttp s l,
        where st = "initial_state JUndefined"] v
    by (simp add: mock_runtime mock_utf8_decode)
qed

text \<open>
  Claim C4, as the specification states it, fails in its second half: a 302 response
  whose \<open>Location\<close> has no \<open>code\<close> parameter raises nothing, \<open>get_code\<close>
  returns \<open>null\<close>.
\<close>

theorem get_code_missing_code_counterexample:
  "status (redirect_response ''https://envoy.local/auth/callback'') = 302
   \<and> fst (get_code
          (mock_main (redirect_response ''https://envoy.local/auth/callback'')
             (json_response 200 JNull) (json_response 200 JNull))
          ''challenge'' (initial_state JUndefined))
   = Inr JNull"
  by (simp add: get_code_response [OF mock_login_request mock_authHttp] redirect_response_def
      mock_runtime URL_new_no_code searchParams_get_def)

text \<open>
  Claim C4, amended. Once the login request is answered, \<open>get_code\<close> throws an
  \<open>Error\<close> if and only if the status is not 302, and the message then names the
  expected status 302 and the actual one; the request is sent once, with no retry.
  On a 302 response whose \<open>Location\<close> is a URL without a \<open>code\<close> parameter,
  \<open>get_code\<close> returns \<open>null\<close>.
\<close>

theorem get_code_errors:
  assumes "login_request M code_challenge = Inr req"
    and "authHttp M req (world st) = (Inr resp, w)"
  shows "((\<exists>message. fst (get_code M code_challenge st) = Inl (Error message))
            \<longleftrightarrow> status resp \<noteq> 302)
         \<and> (status resp \<noteq> 302 \<longrightarrow>
              fst (get_code M code_challenge st)
                = Inl (Error (''Unexpected HTTP status. Expected: 302, Found: ''
                               @ decimal (status resp))))
         \<and> trace (snd (get_code M code_challenge st)) = trace st @ [AuthRequest req]
         \<and> (status resp = 302 \<longrightarrow> headers resp ''location'' = Some location
              \<longrightarrow> URL_new (runtime M) location = Inr u
              \<longrightarrow> map_of (searchParams u) ''code'' = None
              \<longrightarrow> fst (get_code M code_challenge st) = Inr JNull)"
proof -
  note r = get_code_response [OF assms]
  have "\<not> (\<exists>message. fst (get_code M code_challenge st) = Inl (Error message))"
    if "status resp = 302"
    using that by (auto simp: r split: sum.splits dest: URL_new_TypeError)
  then show ?thesis
    by (auto simp: r searchParams_get_def)
qed

theorem get_code_errors_witness:
  "fst (get_code
          (mock_main (json_response 200 (JStr ''''))
             (json_response 200 JNull) (json_response 200 JNull))
          ''challenge'' (initial_state JUndefined))
   = Inl (Error ''Unexpected HTTP status. Expected: 302, Found: 200'')
   \<and> length (trace (snd (get_code
          (mock_main (json_response 200 (JStr ''''))
             (json_response 200 JNull) (json_response 200 JNull))
          ''challenge'' (initial_state JUndefined)))) = 1
   \<and> (\<nexists>message. fst (get_code
          (mock_main (redirect_response ''https://envoy.local/auth/callback'')
             (json_response 200 JNull) (json_response 200 JNull))
          ''challenge'' (initial_state JUndefined)) = Inl (Error message))"
proof -
  let ?ok = "json_response 200 (JStr '''')"
  let ?r = "redirect_response ''https://envoy.local/auth/callback''"
  have s1: "status ?ok \<noteq> 302" by (simp add: json_response_def)
  have s2: "status ?r = 302" by (simp add: redirect_response_def)
  show ?thesis
    using get_code_errors [OF mock_login_request [of ?ok] mock_authHttp,
        where st = "initial_state JUndefined"]
      get_code_errors [OF mock_login_request [of ?r] mock_authHttp,
        where st = "initial_state JUndefined"]
      s1 s2
    by (simp add: json_response_def decimal_examples initial_state_def)
qed

section \<open>The session\<close>

text \<open>
  Claim C1. For every token storage whose \<open>load\<close> returns a non-empty token string,
  \<open>authenticate\<close> completes successfully; the only collaborator it calls is
  \<open>load\<close> (no random bytes are drawn, no request goes to the identity service or to
  the device), and the default \<open>Authorization\<close> header of the device client becomes
  \<open>Bearer\<close> followed by the token.
\<close>

theorem authenticate_cache_hit:
  assumes "token_storage (opts M) = Some storage"
    and "load storage (world st) = (Inr (JStr token), w)"
    and "token \<noteq> []"
  shows "authenticate M st =
     (Inr (), st\<lparr> world := w, trace := trace st @ [Load],
                   common_headers := (common_headers st)(''Authorization'' \<mapsto> ''Bearer '' @ token) \<rparr>)"
  by (simp add: authenticate_present [OF assms(1,2)] set_authorization_text)

theorem authenticate_cache_hit_witness:
  "authenticate
     (mock_main (redirect_response []) (json_response 200 JNull) (json_response 200 JNull))
     (initial_state (JStr ''tok-0''))
   = (Inr (), \<lparr> world = JStr ''tok-0'', trace = [Load],
                common_headers = [''Authorization'' \<mapsto> ''Bearer tok-0''] \<rparr>)"
proof -
  have l: "load memory_storage (world (initial_state (JStr ''tok-0'')))
             = (Inr (JStr ''tok-0''), JStr ''tok-0'')"
    by (simp add: memory_storage_load initial_state_def)
  have n: "''tok-0'' \<noteq> []" by simp
  show ?thesis
    using authenticate_cache_hit [OF mock_token_storage l n]
    by (simp add: initial_state_def)
qed

text \<open>
  Claim C2. For every token storage whose \<open>load\<close> returns \<open>undefined\<close> (or
  \<open>null\<close>), the calls that \<open>authenticate\<close> makes are an initial part of: load,
  random bytes, login request, token request, save. When every step returns without
  an error, \<open>authenticate\<close> draws the
  random bytes of a verifier, sends the login request carrying the challenge derived
  from that verifier, then sends the token request carrying the verifier and the code
  of the redirect, then calls \<open>save\<close> once, with the token that the exchange returned,
  and finally sets the default \<open>Authorization\<close> header, which the next metrics
  request carries.
\<close>

theorem authenticate_cache_miss:
  assumes "token_storage (opts M) = Some storage"
    and "load storage (world st) = (Inr absent, w1)"
    and "absent = JUndefined \<or> absent = JNull"
  shows "(\<exists>n. new_calls st (snd (authenticate M st)) = take n handshake_calls)
         \<and> (crypto_randomBytes M 32 w1 = (random, w2)
              \<longrightarrow> code_verifier = code_verifier_of random
              \<longrightarrow> code_challenge = generate_code_challenge (runtime M) code_verifier
              \<longrightarrow> login_request M code_challenge = Inr req1
              \<longrightarrow> authHttp M req1 w2 = (Inr resp1, w3)
              \<longrightarrow> status resp1 = 302
              \<longrightarrow> headers resp1 ''location'' = Some location
              \<longrightarrow> URL_new (runtime M) location = Inr u
              \<longrightarrow> code = searchParams_get u ''code''
              \<longrightarrow> jwt_request M code_verifier code = Inr req2
              \<longrightarrow> envoyHttp M (common_headers st) req2 w3 = (Inr resp2, w4)
              \<longrightarrow> js_get (data resp2) ''access_token'' = Inr jwt
              \<longrightarrow> save storage jwt w4 = (Inr (), w5)
              \<longrightarrow> to_string (runtime M) jwt = Inr text
              \<longrightarrow> authenticate M st =
                    (Inr (), st\<lparr> world := w5,
                                  trace := trace st @ [Load, RandomBytes 32, AuthRequest req1,
                                                       EnvoyRequest (common_headers st) req2,
                                                       Save jwt],
                                  common_headers :=
                                    (common_headers st)(''Authorization'' \<mapsto> ''Bearer '' @ text) \<rparr>)
                  \<and> js_get (req_data req1) ''codeChallenge'' = Inr (JStr code_challenge)
                  \<and> js_get (req_data req2) ''code_verifier'' = Inr (JStr code_verifier)
                  \<and> js_get (req_data req2) ''code'' = Inr code
                  \<and> trace (snd (get_current_power M (snd (authenticate M st))))
                      = trace (snd (authenticate M st))
                        @ [EnvoyRequest
                             ((common_headers st)(''Authorization'' \<mapsto> ''Bearer '' @ text))
                             power_request])"
  using authenticate_call_order [OF assms] authenticate_handshake [OF assms]
  by blast

theorem authenticate_cache_miss_witness:
  "\<exists>req1 req2.
     authenticate
       (mock_main (redirect_response ''https://envoy.local/auth/callback?code=ABC123'')
          (json_response 200 (JObj [(''access_token'', JStr ''tok-1'')]))
          (json_response 200 example_body))
       (initial_state JUndefined)
     = (Inr (), \<lparr> world = JStr ''tok-1'',
                  trace = [Load, RandomBytes 32, AuthRequest req1, EnvoyRequest Map.empty req2,
                           Save (JStr ''tok-1'')],
                  common_headers = [''Authorization'' \<mapsto> ''Bearer tok-1''] \<rparr>)
     \<and> js_get (req_data req2) ''code'' = Inr (JStr ''ABC123'')"
proof -
  let ?location = "''https://envoy.local/auth/callback?code=ABC123''"
  let ?r1 = "redirect_response ?location"
  let ?r2 = "json_response 200 (JObj [(''access_token'', JStr ''tok-1'')])"
  let ?M = "mock_main ?r1 ?r2 (json_response 200 example_body)"
  let ?st = "initial_state JUndefined :: jsval state"
  let ?u = "\<lparr> searchParams = [(''code'', ''ABC123'')] \<rparr>"
  have l: "load memory_storage (world ?st) = (Inr JUndefined, JUndefined)"
    by (simp add: memory_storage_load initial_state_def)
  have s: "status ?r1 = 302" and h: "headers ?r1 ''location'' = Some ?location"
    by (simp_all add: redirect_response_def)
  have u: "URL_new (runtime ?M) ?location = Inr ?u"
    by (rule URL_new_example) (simp_all add: mock_runtime mock_utf8_decode, simp add: mock_platform_def)
  have e: "envoyHttp ?M (common_headers ?st) req w = (Inr ?r2, w)"
    if "req_url req = ''/auth/get_jwt''" for req w
    using that by (rule mock_envoyHttp_jwt)
  have a: "js_get (data ?r2) ''access_token'' = Inr (JStr ''tok-1'')"
    by (simp add: json_response_def)
  have t: "to_string (runtime ?M) (JStr ''tok-1'') = Inr ''tok-1''"
    by simp
  have "JUndefined = JUndefined \<or> JUndefined = JNull" by simp
  from authenticate_cache_miss [OF mock_token_storage l this, THEN conjunct2, rule_format,
      OF mock_randomBytes refl refl mock_login_request mock_authHttp s h u refl
         mock_jwt_request e a memory_storage_save t]
  show ?thesis
    by (simp add: initial_state_def searchParams_get_def)
qed

text \<open>
  Claim C10. \<open>authenticate\<close> runs the handshake exactly when \<open>load\<close> yields
  \<open>undefined\<close> or \<open>null\<close>. Any other value, the empty string included, is a cache
  hit: \<open>load\<close> is the only call, and the \<open>Authorization\<close> header becomes
  \<open>Bearer\<close> followed by that value.
\<close>

theorem authenticate_handshake_only_when_absent:
  assumes "token_storage (opts M) = Some storage"
    and "load storage (world st) = (Inr jwt, w)"
  shows "(RandomBytes 32 \<in> set (drop (length (trace st)) (trace (snd (authenticate M st))))
            \<longleftrightarrow> jwt = JUndefined \<or> jwt = JNull)
         \<and> (jwt \<noteq> JUndefined \<and> jwt \<noteq> JNull \<longrightarrow>
               trace (snd (authenticate M st)) = trace st @ [Load]
               \<and> (\<forall>text. to_string (runtime M) jwt = Inr text \<longrightarrow>
                     authenticate M st =
                       (Inr (), st\<lparr> world := w, trace := trace st @ [Load],
                                     common_headers :=
                                       (common_headers st)(''Authorization'' \<mapsto> ''Bearer '' @ text) \<rparr>)))
         \<and> (jwt = JStr [] \<longrightarrow>
               authenticate M st =
                 (Inr (), st\<lparr> world := w, trace := trace st @ [Load],
                               common_headers :=
                                 (common_headers st)(''Authorization'' \<mapsto> ''Bearer '') \<rparr>))"
proof (cases "jwt = JUndefined \<or> jwt = JNull")
  case True
  from authenticate_absent_trace [OF assms True]
  obtain evs where "trace (snd (authenticate M st)) = trace st @ [Load, RandomBytes 32] @ evs"
    by blast
  with True show ?thesis by auto
next
  case False
  then have p: "authenticate M st
      = set_authorization M jwt (st\<lparr> world := w, trace := trace st @ [Load] \<rparr>)"
    using authenticate_present [OF assms] by simp
  have t: "trace (snd (authenticate M st)) = trace st @ [Load]"
    by (simp add: p set_authorization_trace)
  from False t show ?thesis
    by (auto simp: p set_authorization_text)
qed

theorem authenticate_handshake_only_when_absent_witness:
  "authenticate
     (mock_main (redirect_response []) (json_response 200 JNull) (json_response 200 JNull))
     (initial_state (JStr []))
   = (Inr (), \<lparr> world = JStr [], trace = [Load],
                common_headers = [''Authorization'' \<mapsto> ''Bearer ''] \<rparr>)
   \<and> RandomBytes 32 \<in> set (trace (snd (authenticate
     (mock_main (redirect_response []) (json_response 200 JNull) (json_response 200 JNull))
     (initial_state JUndefined))))"
proof -
  let ?M = "mock_main (redirect_response []) (json_response 200 JNull) (json_response 200 JNull)"
  have l1: "load memory_storage (world (initial_state (JStr []))) = (Inr (JStr []), JStr [])"
    by (simp add: memory_storage_load initial_state_def)
  have l2: "load memory_storage (world (initial_state JUndefined)) = (Inr JUndefined, JUndefined)"
    by (simp add: memory_storage_load initial_state_def)
  show ?thesis
    using authenticate_handshake_only_when_absent [OF mock_token_storage l1, of "redirect_response []"
        "json_response 200 JNull" "json_response 200 JNull"]
      authenticate_handshake_only_when_absent [OF mock_token_storage l2, of "redirect_response []"
        "json_response 200 JNull" "json_response 200 JNull"]
    by (simp add: initial_state_def)
qed

end
